theory Spec2Isabelle
  imports Complex_Main "HOL-Library.Sublist"
begin

section \<open>ECMAScript values\<close>

text \<open>
  A JavaScript number is \<open>NaN\<close>, one of the two infinities, or a finite value. Finite
  values are read as the real numbers they denote; every comparison, \<open>Math.floor\<close>,
  \<open>Math.ceil\<close>, \<open>Math.min\<close> and \<open>Math.max\<close> is exact on doubles. The sums, products
  and quotients of the plan builder and of pagination, whose operands are whole numbers,
  are taken exactly; the product \<open>radius * 1000\<close> of the candidate query, whose operand
  is any double, is rounded by the runtime (\<open>js_mul_rounded\<close> below). The negative zero is
  identified with zero (they compare equal in every test the code makes).
\<close>

datatype jsnum = NaN | PInf | NInf | Fin real

type_synonym addr = nat

text \<open>
  The values a search request carries: JSON-like data plus \<open>undefined\<close>. An object
  or array is a reference \<open>JObj a\<close>. Strings are sequences of code units below 256.
\<close>

datatype jsval = JUndefined | JNull | JBool bool | JNum jsnum | JStr string | JObj addr

fun isFinite :: "jsnum \<Rightarrow> bool" where
  "isFinite (Fin x) = True"
| "isFinite n = False"

fun js_floor :: "jsnum \<Rightarrow> jsnum" where
  "js_floor (Fin x) = Fin (of_int \<lfloor>x\<rfloor>)"
| "js_floor n = n"

fun js_ceil :: "jsnum \<Rightarrow> jsnum" where
  "js_ceil (Fin x) = Fin (of_int \<lceil>x\<rceil>)"
| "js_ceil n = n"

text \<open>The relational operators: every comparison with \<open>NaN\<close> is false.\<close>

fun js_lt :: "jsnum \<Rightarrow> jsnum \<Rightarrow> bool" where
  "js_lt NaN b = False"
| "js_lt a NaN = False"
| "js_lt (Fin x) (Fin y) = (x < y)"
| "js_lt (Fin x) PInf = True"
| "js_lt (Fin x) NInf = False"
| "js_lt PInf b = False"
| "js_lt NInf NInf = False"
| "js_lt NInf b = True"

fun js_le :: "jsnum \<Rightarrow> jsnum \<Rightarrow> bool" where
  "js_le NaN b = False"
| "js_le a NaN = False"
| "js_le a b = (\<not> js_lt b a)"

definition js_gt :: "jsnum \<Rightarrow> jsnum \<Rightarrow> bool" where
  "js_gt a b = js_lt b a"

text \<open>\<open>Math.max\<close> and \<open>Math.min\<close> of two arguments: \<open>NaN\<close> if either is.\<close>

fun js_max :: "jsnum \<Rightarrow> jsnum \<Rightarrow> jsnum" where
  "js_max NaN b = NaN"
| "js_max a NaN = NaN"
| "js_max a b = (if js_lt a b then b else a)"

fun js_min :: "jsnum \<Rightarrow> jsnum \<Rightarrow> jsnum" where
  "js_min NaN b = NaN"
| "js_min a NaN = NaN"
| "js_min a b = (if js_lt b a then b else a)"

fun js_neg :: "jsnum \<Rightarrow> jsnum" where
  "js_neg NaN = NaN"
| "js_neg PInf = NInf"
| "js_neg NInf = PInf"
| "js_neg (Fin x) = Fin (- x)"

fun js_add :: "jsnum \<Rightarrow> jsnum \<Rightarrow> jsnum" where
  "js_add NaN b = NaN"
| "js_add a NaN = NaN"
| "js_add (Fin x) (Fin y) = Fin (x + y)"
| "js_add PInf NInf = NaN"
| "js_add NInf PInf = NaN"
| "js_add PInf b = PInf"
| "js_add NInf b = NInf"
| "js_add (Fin x) b = b"

definition js_sub :: "jsnum \<Rightarrow> jsnum \<Rightarrow> jsnum" where
  "js_sub a b = js_add a (js_neg b)"

text \<open>The sign of a number that is not \<open>NaN\<close>: negative, zero or positive.\<close>

fun js_sign :: "jsnum \<Rightarrow> int" where
  "js_sign NaN = 0"
| "js_sign PInf = 1"
| "js_sign NInf = - 1"
| "js_sign (Fin x) = (if x < 0 then - 1 else if x = 0 then 0 else 1)"

definition signed_inf :: "int \<Rightarrow> jsnum" where
  "signed_inf s = (if s = 0 then NaN else if s < 0 then NInf else PInf)"

fun js_mul :: "jsnum \<Rightarrow> jsnum \<Rightarrow> jsnum" where
  "js_mul NaN b = NaN"
| "js_mul a NaN = NaN"
| "js_mul (Fin x) (Fin y) = Fin (x * y)"
| "js_mul a b = signed_inf (js_sign a * js_sign b)"

fun js_div :: "jsnum \<Rightarrow> jsnum \<Rightarrow> jsnum" where
  "js_div NaN b = NaN"
| "js_div a NaN = NaN"
| "js_div (Fin x) (Fin y) = (if y = 0 then signed_inf (js_sign (Fin x)) else Fin (x / y))"
| "js_div (Fin x) b = Fin 0"
| "js_div a (Fin y) = signed_inf (js_sign a * (if y < 0 then - 1 else 1))"
| "js_div a b = NaN"

text \<open>
  The builtins of the runtime whose algorithms are not part of the repository: the
  date parser behind \<open>new Date(s)\<close> (the time value in milliseconds, \<open>None\<close> for an
  invalid date), the conversions behind \<open>Number(v)\<close> for a string and for an object,
  the printing of a number that is not a whole number below \<open>2^53\<close>, and the rounding
  of an exact result to a double (to the nearest one, or to an infinity on overflow).
\<close>

record runtime =
  parse_date :: "string \<Rightarrow> int option"
  string_to_number :: "string \<Rightarrow> jsnum"
  object_to_number :: "addr \<Rightarrow> jsnum"
  number_to_string :: "real \<Rightarrow> string"
  round_double :: "real \<Rightarrow> jsnum"

text \<open>The operator \<open>*\<close> on doubles: the exact product, rounded by the runtime.\<close>

definition js_mul_rounded :: "runtime \<Rightarrow> jsnum \<Rightarrow> jsnum \<Rightarrow> jsnum" where
  "js_mul_rounded rt a b = (case js_mul a b of Fin z \<Rightarrow> round_double rt z | r \<Rightarrow> r)"

text \<open>\<open>Number(v)\<close>.\<close>

fun to_number :: "runtime \<Rightarrow> jsval \<Rightarrow> jsnum" where
  "to_number rt JUndefined = NaN"
| "to_number rt JNull = Fin 0"
| "to_number rt (JBool b) = (if b then Fin 1 else Fin 0)"
| "to_number rt (JNum n) = n"
| "to_number rt (JStr s) = string_to_number rt s"
| "to_number rt (JObj a) = object_to_number rt a"

text \<open>\<open>v === undefined || v === null\<close>, and the operator \<open>??\<close>.\<close>

fun nullish :: "jsval \<Rightarrow> bool" where
  "nullish JUndefined = True"
| "nullish JNull = True"
| "nullish v = False"

definition coalesce :: "jsval \<Rightarrow> jsval \<Rightarrow> jsval" where
  "coalesce a b = (if nullish a then b else a)"

text \<open>Reading a key of a \<open>Record<string, unknown>\<close>: \<open>undefined\<close> when absent.\<close>

definition get_prop :: "(string \<rightharpoonup> jsval) \<Rightarrow> string \<Rightarrow> jsval" where
  "get_prop m k = (case m k of None \<Rightarrow> JUndefined | Some v \<Rightarrow> v)"

text \<open>\<open>plan.options?.key\<close>.\<close>

definition opt_prop :: "(string \<rightharpoonup> jsval) option \<Rightarrow> string \<Rightarrow> jsval" where
  "opt_prop mo k = (case mo of None \<Rightarrow> JUndefined | Some m \<Rightarrow> get_prop m k)"

subsection \<open>Strings\<close>

text \<open>White space and line terminators below code unit 256, as \<open>trim\<close> removes them.\<close>

definition is_space :: "char \<Rightarrow> bool" where
  "is_space c = (c \<in> set [CHR 0x09, CHR 0x0A, CHR 0x0B, CHR 0x0C, CHR 0x0D, CHR 0x20, CHR 0xA0])"

definition trim :: "string \<Rightarrow> string" where
  "trim s = rev (dropWhile is_space (rev (dropWhile is_space s)))"

definition nl :: string where
  "nl = [CHR 0x0A]"

text \<open>\<open>Array.prototype.join\<close> on an array of strings.\<close>

fun join :: "string \<Rightarrow> string list \<Rightarrow> string" where
  "join sep [] = []"
| "join sep [x] = x"
| "join sep (x # y # ys) = x @ sep @ join sep (y # ys)"

definition digit_char :: "nat \<Rightarrow> char" where
  "digit_char d = char_of (48 + d)"

text \<open>The decimal digits of a natural number, as a template literal prints it.\<close>

function string_of_nat :: "nat \<Rightarrow> string" where
  "string_of_nat n =
     (if n < 10 then [digit_char n] else string_of_nat (n div 10) @ [digit_char (n mod 10)])"
  by pat_completeness auto
termination
  by (relation "measure id") auto

declare string_of_nat.simps [simp del]

definition string_of_int :: "int \<Rightarrow> string" where
  "string_of_int i = (if i < 0 then CHR ''-'' # string_of_nat (nat (- i)) else string_of_nat (nat i))"

text \<open>
  \<open>String(n)\<close> for a number: a whole number of magnitude below \<open>2^53\<close> prints as its
  decimal digits (the shortest digits that read back as the same double are then all
  of them); every other finite number is printed by the runtime.
\<close>

fun num_to_string :: "runtime \<Rightarrow> jsnum \<Rightarrow> string" where
  "num_to_string rt NaN = ''NaN''"
| "num_to_string rt PInf = ''Infinity''"
| "num_to_string rt NInf = ''-Infinity''"
| "num_to_string rt (Fin x) =
     (if of_int \<lfloor>x\<rfloor> = x \<and> \<bar>x\<bar> < 2 ^ 53 then string_of_int \<lfloor>x\<rfloor> else number_to_string rt x)"

section \<open>Types of the search service (types.ts)\<close>

record SearchInput =
  latitude :: jsval
  longitude :: jsval
  checkIn :: jsval
  checkOut :: jsval
  adults :: jsval
  children :: jsval
  page :: jsval
  pageSize :: jsval
  filters :: "(string \<rightharpoonup> jsval) option"

record geo_point =
  lat :: jsnum
  lon :: jsnum

text \<open>
  A \<open>Date\<close> is its time value (\<open>getTime()\<close>). The field \<open>geo\<close> is declared always set;
  the query builder still tests it, so the model keeps the test.
\<close>

record SearchPlan =
  input :: SearchInput
  checkInDate :: int
  checkOutDate :: int
  nights :: jsnum
  guests :: jsnum
  plan_page :: jsnum
  plan_pageSize :: jsnum
  geo :: "geo_point option"
  radius :: jsnum
  hasChildren :: bool
  options :: "(string \<rightharpoonup> jsval) option"

section \<open>The plan builder (search.plan.ts)\<close>

datatype SearchPlanErrorCode =
    INVALID_CHECK_IN
  | INVALID_CHECK_OUT
  | INVALID_LATITUDE
  | INVALID_LONGITUDE
  | ARRIVAL_AFTER_DEPARTURE
  | STAY_TOO_SHORT
  | NO_GUESTS
  | INVALID_GUEST_COUNTS

definition MS_PER_DAY :: int where "MS_PER_DAY = 24 * 60 * 60 * 1000"
definition DEFAULT_PAGE :: jsnum where "DEFAULT_PAGE = Fin 1"
definition DEFAULT_PAGE_SIZE :: jsnum where "DEFAULT_PAGE_SIZE = Fin 20"
definition DEFAULT_RADIUS_KM :: jsnum where "DEFAULT_RADIUS_KM = Fin 10"
definition MIN_RADIUS_KM :: jsnum where "MIN_RADIUS_KM = Fin 1"
definition MAX_RADIUS_KM :: jsnum where "MAX_RADIUS_KM = Fin 500"
definition MIN_PAGE :: jsnum where "MIN_PAGE = Fin 1"
definition MIN_PAGE_SIZE :: jsnum where "MIN_PAGE_SIZE = Fin 1"
definition MAX_PAGE_SIZE :: jsnum where "MAX_PAGE_SIZE = Fin 100"
definition MAX_SAFE_INTEGER :: jsnum where "MAX_SAFE_INTEGER = Fin 9007199254740991"
definition LAT_MIN :: jsnum where "LAT_MIN = Fin (- 90)"
definition LAT_MAX :: jsnum where "LAT_MAX = Fin 90"
definition LON_MIN :: jsnum where "LON_MIN = Fin (- 180)"
definition LON_MAX :: jsnum where "LON_MAX = Fin 180"

datatype date_field = FieldCheckIn | FieldCheckOut

definition date_error :: "date_field \<Rightarrow> SearchPlanErrorCode" where
  "date_error field = (case field of FieldCheckIn \<Rightarrow> INVALID_CHECK_IN | FieldCheckOut \<Rightarrow> INVALID_CHECK_OUT)"

definition parseDate :: "runtime \<Rightarrow> jsval \<Rightarrow> date_field \<Rightarrow> SearchPlanErrorCode + int" where
  "parseDate rt v field =
     (case v of
        JStr s \<Rightarrow>
          if trim s = [] then Inl (date_error field)
          else (case parse_date rt (trim s) of
                  None \<Rightarrow> Inl (date_error field)
                | Some d \<Rightarrow> Inr d)
      | _ \<Rightarrow> Inl (date_error field))"

definition parseNumber :: "runtime \<Rightarrow> jsval \<Rightarrow> jsnum \<Rightarrow> jsnum \<Rightarrow> jsnum \<Rightarrow> jsnum" where
  "parseNumber rt v defaultVal mn mx =
     (if nullish v then defaultVal
      else let n = to_number rt v in
        if \<not> isFinite n then defaultVal
        else js_min mx (js_max mn (js_floor n)))"

definition parseGeo :: "runtime \<Rightarrow> SearchInput \<Rightarrow> SearchPlanErrorCode + geo_point" where
  "parseGeo rt inp =
     (let la = to_number rt (latitude inp); lo = to_number rt (longitude inp) in
      if \<not> isFinite la then Inl INVALID_LATITUDE
      else if js_lt la LAT_MIN \<or> js_gt la LAT_MAX then Inl INVALID_LATITUDE
      else if \<not> isFinite lo then Inl INVALID_LONGITUDE
      else if js_lt lo LON_MIN \<or> js_gt lo LON_MAX then Inl INVALID_LONGITUDE
      else Inr \<lparr>lat = la, lon = lo\<rparr>)"

definition extractRadiusKm :: "runtime \<Rightarrow> (string \<rightharpoonup> jsval) option \<Rightarrow> jsnum" where
  "extractRadiusKm rt fo =
     (case fo of
        None \<Rightarrow> DEFAULT_RADIUS_KM
      | Some f \<Rightarrow>
          let r = coalesce (get_prop f ''radiusKm'') (get_prop f ''radius'') in
          if nullish r then DEFAULT_RADIUS_KM
          else let n = to_number rt r in
            if \<not> isFinite n then DEFAULT_RADIUS_KM
            else js_min MAX_RADIUS_KM (js_max MIN_RADIUS_KM n))"

definition buildSearchPlan :: "runtime \<Rightarrow> SearchInput \<Rightarrow> SearchPlanErrorCode + SearchPlan" where
  "buildSearchPlan rt inp =
     (case parseDate rt (checkIn inp) FieldCheckIn of
        Inl e \<Rightarrow> Inl e
      | Inr ci \<Rightarrow>
     (case parseDate rt (checkOut inp) FieldCheckOut of
        Inl e \<Rightarrow> Inl e
      | Inr co \<Rightarrow>
      if ci \<ge> co then Inl ARRIVAL_AFTER_DEPARTURE
      else let n = js_floor (js_div (Fin (of_int (co - ci))) (Fin (of_int MS_PER_DAY))) in
      if js_lt n (Fin 1) then Inl STAY_TOO_SHORT
      else let a = to_number rt (adults inp);
               c = to_number rt (coalesce (children inp) (JNum (Fin 0))) in
      if \<not> isFinite a \<or> js_lt a (Fin 0) \<or> \<not> isFinite c \<or> js_lt c (Fin 0)
        then Inl INVALID_GUEST_COUNTS
      else let g = js_add a c in
      if js_le g (Fin 0) then Inl NO_GUESTS
      else let p = parseNumber rt (page inp) DEFAULT_PAGE MIN_PAGE MAX_SAFE_INTEGER;
               ps = parseNumber rt (pageSize inp) DEFAULT_PAGE_SIZE MIN_PAGE_SIZE MAX_PAGE_SIZE in
      (case parseGeo rt inp of
         Inl e \<Rightarrow> Inl e
       | Inr gp \<Rightarrow>
           Inr \<lparr>input = inp, checkInDate = ci, checkOutDate = co, nights = n, guests = g,
                plan_page = p, plan_pageSize = ps, geo = Some gp,
                radius = extractRadiusKm rt (filters inp),
                hasChildren = js_gt c (Fin 0),
                options = filters inp\<rparr>)))"

section \<open>The candidate query (candidate.query.ts)\<close>

record CandidateProperty =
  c_id :: string
  c_name :: string
  propertyType :: "string option"
  location :: "string option"
  distance_meters :: "string option"
  destinationId :: "string option"
  amenities :: "string list option"
  bedrooms :: "jsnum option"
  bathrooms :: "jsnum option"
  maxGuests :: "jsnum option"

record AvailableProperty = CandidateProperty +
  available :: bool
  unitId :: "string option"

record PricedProperty = AvailableProperty +
  totalPrice :: jsnum
  currency :: string
  pricePerNight :: "jsnum option"
  breakdown :: "(string \<times> jsnum) list option"

record pagination_info =
  pg_page :: jsnum
  pg_pageSize :: jsnum
  pg_total :: jsnum
  pg_totalPages :: jsnum

record SearchResult =
  res_properties :: "PricedProperty list"
  res_pagination :: pagination_info

definition CANDIDATE_HARD_LIMIT :: jsnum where "CANDIDATE_HARD_LIMIT = Fin 1000"
definition CANDIDATE_HARD_LIMIT_MAX :: jsnum where "CANDIDATE_HARD_LIMIT_MAX = Fin 3000"

definition resolveCandidateLimit :: "SearchPlan \<Rightarrow> jsnum" where
  "resolveCandidateLimit plan =
     (case opt_prop (options plan) ''candidateHardLimit'' of
        JNum opt \<Rightarrow>
          if isFinite opt \<and> js_gt opt (Fin 0)
          then js_min (js_floor opt) CANDIDATE_HARD_LIMIT_MAX
          else CANDIDATE_HARD_LIMIT
      | _ \<Rightarrow> CANDIDATE_HARD_LIMIT)"

definition CAPACITY_COLUMNS :: "string list" where
  "CAPACITY_COLUMNS = [''max_guests'', ''maximum_guests'', ''capacity'']"

definition GEO_COLUMNS :: "string list" where
  "GEO_COLUMNS = [''location'', ''geo'']"

definition getCapacityColumn :: "SearchPlan \<Rightarrow> string option" where
  "getCapacityColumn plan =
     (case opt_prop (options plan) ''capacityColumn'' of
        JStr c \<Rightarrow> if c \<in> set CAPACITY_COLUMNS then Some c else None
      | _ \<Rightarrow> None)"

definition getGeoColumn :: "SearchPlan \<Rightarrow> string" where
  "getGeoColumn plan =
     (case opt_prop (options plan) ''geoColumn'' of
        JStr c \<Rightarrow> if c \<in> set GEO_COLUMNS then c else ''location''
      | _ \<Rightarrow> ''location'')"

record sql_query =
  sql_text :: string
  sql_values :: "jsval list"

text \<open>
  The builder's mutable locals (\<open>conditions\<close>, \<open>values\<close>, \<open>selectParts\<close>, \<open>pos\<close>) are
  threaded through its three sections: capacity, geo, limit.
\<close>

definition capacity_section ::
  "SearchPlan \<Rightarrow> string list \<times> jsval list \<times> string list \<times> nat" where
  "capacity_section plan =
     (let selectParts = [''p.id'', ''p.name'', ''p.city'', ''p.country'']; pos = 1 in
      case getCapacityColumn plan of
        None \<Rightarrow> ([], [], selectParts, pos)
      | Some capCol \<Rightarrow>
          ([''p.'' @ capCol @ '' >= $'' @ string_of_nat pos],
           [JNum (guests plan)],
           selectParts @
             [if capCol = ''maximum_guests'' then ''p.maximum_guests AS max_guests''
              else if capCol = ''capacity'' then ''p.capacity AS max_guests''
              else ''p.max_guests''],
           pos + 1))"

definition with_params_text :: "nat \<Rightarrow> nat \<Rightarrow> string" where
  "with_params_text lonParam latParam =
     nl @ ''WITH params AS ('' @ nl @ ''  SELECT'' @ nl @
     ''    ST_SetSRID(ST_MakePoint($'' @ string_of_nat lonParam @ '', $'' @
     string_of_nat latParam @ ''), 4326)::geography AS p'' @ nl @ '')''"

definition dwithin_text :: "string \<Rightarrow> nat \<Rightarrow> string" where
  "dwithin_text geoCol pos =
     ''ST_DWithin(p.'' @ geoCol @ ''::geography, params.p, $'' @ string_of_nat pos @ '')''"

definition distance_text :: "string \<Rightarrow> string" where
  "distance_text geoCol = ''ST_Distance(p.'' @ geoCol @ ''::geography, params.p) AS distance_meters''"

definition geo_section ::
  "runtime \<Rightarrow> SearchPlan \<Rightarrow> string list \<times> jsval list \<times> string list \<times> nat \<Rightarrow>
   string \<times> string list \<times> jsval list \<times> string list \<times> nat" where
  "geo_section rt plan st =
     (case st of (conditions, vals, selectParts, pos) \<Rightarrow>
      let geoCol = getGeoColumn plan in
      (case geo plan of
         None \<Rightarrow> ([], conditions, vals, selectParts, pos)
       | Some g \<Rightarrow>
           let lonParam = pos; latParam = pos + 1; pos' = pos + 2 in
           (with_params_text lonParam latParam,
            conditions @ [dwithin_text geoCol pos'],
            vals @ [JNum (lon g), JNum (lat g)] @
              [JNum (js_mul_rounded rt (radius plan) (Fin 1000))],
            selectParts @ [distance_text geoCol],
            pos' + 1)))"

text \<open>The template literal of the query text, before \<open>.trim()\<close>.\<close>

definition sql_template :: "string \<Rightarrow> string list \<Rightarrow> bool \<Rightarrow> string \<Rightarrow> nat \<Rightarrow> string" where
  "sql_template withParams selectParts hasGeo whereClause limitParam =
     nl @ withParams @ nl @
     ''SELECT '' @ join '', '' selectParts @ nl @
     ''FROM properties p'' @ nl @
     (if hasGeo then '', params'' else []) @ nl @
     ''WHERE '' @ whereClause @ nl @
     ''ORDER BY p.id'' @ nl @
     ''LIMIT $'' @ string_of_nat limitParam @ '';'' @ nl"

definition buildCandidateSql :: "runtime \<Rightarrow> SearchPlan \<Rightarrow> sql_query" where
  "buildCandidateSql rt plan =
     (case geo_section rt plan (capacity_section plan) of
        (withParams, conditions, vals, selectParts, pos) \<Rightarrow>
      let hardLimit = resolveCandidateLimit plan;
          limitParam = pos;
          whereClause = (if conditions \<noteq> [] then join '' AND '' conditions else ''TRUE'')
      in \<lparr>sql_text =
            trim (sql_template withParams selectParts (geo plan \<noteq> None) whereClause limitParam),
          sql_values = vals @ [JNum hardLimit]\<rparr>)"

record CandidateRow =
  row_id :: string
  row_name :: "string option"
  row_city :: "string option"
  row_country :: "string option"
  row_distance_meters :: jsval
  row_max_guests :: jsval
  row_destination_id :: "string option"

text \<open>\<open>[a, b].filter(Boolean)\<close> on strings that may be null: the non-empty ones.\<close>

definition truthy_strings :: "string option list \<Rightarrow> string list" where
  "truthy_strings xs = concat (map (\<lambda>x. case x of None \<Rightarrow> [] | Some s \<Rightarrow> if s = [] then [] else [s]) xs)"

definition mapRowToCandidate :: "runtime \<Rightarrow> CandidateRow \<Rightarrow> CandidateProperty" where
  "mapRowToCandidate rt r =
     \<lparr>c_id = row_id r,
      c_name = (case row_name r of None \<Rightarrow> [] | Some n \<Rightarrow> n),
      propertyType = None,
      location =
        (let j = join '', '' (truthy_strings [row_city r, row_country r])
         in if j = [] then None else Some j),
      distance_meters =
        (if \<not> nullish (row_distance_meters r)
         then Some (num_to_string rt (js_floor (to_number rt (row_distance_meters r))) @ '' Meters'')
         else None),
      destinationId = row_destination_id r,
      amenities = None,
      bedrooms = None,
      bathrooms = None,
      maxGuests =
        (if \<not> nullish (row_max_guests r) then Some (to_number rt (row_max_guests r)) else None)\<rparr>"

text \<open>
  The property store is a parameter: it answers a query with rows or fails. The
  timing line written to the console is not modelled.
\<close>

definition runCandidateQuery ::
  "runtime \<Rightarrow> (sql_query \<Rightarrow> 'e + CandidateRow list) \<Rightarrow> SearchPlan \<Rightarrow> 'e + CandidateProperty list" where
  "runCandidateQuery rt db plan =
     (case db (buildCandidateSql rt plan) of
        Inl e \<Rightarrow> Inl e
      | Inr rows \<Rightarrow> Inr (map (mapRowToCandidate rt) rows))"

section \<open>The stages\<close>

definition candidate ::
  "runtime \<Rightarrow> (sql_query \<Rightarrow> 'e + CandidateRow list) \<Rightarrow> SearchPlan \<Rightarrow> 'e + CandidateProperty list" where
  "candidate rt db plan = runCandidateQuery rt db plan"

definition availability :: "SearchPlan \<Rightarrow> CandidateProperty list \<Rightarrow> AvailableProperty list" where
  "availability plan candidates = []"

definition stayRules :: "SearchPlan \<Rightarrow> AvailableProperty list \<Rightarrow> AvailableProperty list" where
  "stayRules plan properties = properties"

definition pricing :: "SearchPlan \<Rightarrow> AvailableProperty list \<Rightarrow> PricedProperty list" where
  "pricing plan properties = []"

definition ranking :: "SearchPlan \<Rightarrow> PricedProperty list \<Rightarrow> PricedProperty list" where
  "ranking plan properties = properties"

text \<open>
  \<open>Array.prototype.slice(start, end)\<close>: each bound is truncated towards zero, a
  negative bound counts from the end, and both are clamped into the array.
\<close>

fun slice_index :: "nat \<Rightarrow> jsnum \<Rightarrow> nat" where
  "slice_index len NaN = 0"
| "slice_index len PInf = len"
| "slice_index len NInf = 0"
| "slice_index len (Fin x) =
     (let r = (if x < 0 then \<lceil>x\<rceil> else \<lfloor>x\<rfloor>)
      in if r < 0 then nat (max (int len + r) 0) else nat (min r (int len)))"

definition js_slice :: "'a list \<Rightarrow> jsnum \<Rightarrow> jsnum \<Rightarrow> 'a list" where
  "js_slice xs s e =
     (let k = slice_index (length xs) s; final = slice_index (length xs) e
      in take (final - k) (drop k xs))"

definition pagination :: "SearchPlan \<Rightarrow> PricedProperty list \<Rightarrow> SearchResult" where
  "pagination plan properties =
     (let total = Fin (of_nat (length properties));
          totalPages = js_max (Fin 1) (js_ceil (js_div total (plan_pageSize plan)));
          start = js_mul (js_sub (plan_page plan) (Fin 1)) (plan_pageSize plan);
          pg = js_slice properties start (js_add start (plan_pageSize plan))
      in \<lparr>res_properties = pg,
          res_pagination = \<lparr>pg_page = plan_page plan, pg_pageSize = plan_pageSize plan,
                             pg_total = total, pg_totalPages = totalPages\<rparr>\<rparr>)"

section \<open>The orchestrator (search.service.ts)\<close>

text \<open>
  The orchestrator awaits six imported stage functions one after another; an exception
  of any of them, or of the plan builder, rejects the promise of \<open>search\<close>. A stage is a
  function that returns its list or fails; the run records which stages were called.
\<close>

datatype stage_name = Candidate | Availability | StayRules | Pricing | Ranking | Pagination

datatype 'e failure = PlanFailure SearchPlanErrorCode | StageFailure 'e

record 'e stages =
  st_candidate :: "SearchPlan \<Rightarrow> 'e + CandidateProperty list"
  st_availability :: "SearchPlan \<Rightarrow> CandidateProperty list \<Rightarrow> 'e + AvailableProperty list"
  st_stayRules :: "SearchPlan \<Rightarrow> AvailableProperty list \<Rightarrow> 'e + AvailableProperty list"
  st_pricing :: "SearchPlan \<Rightarrow> AvailableProperty list \<Rightarrow> 'e + PricedProperty list"
  st_ranking :: "SearchPlan \<Rightarrow> PricedProperty list \<Rightarrow> 'e + PricedProperty list"
  st_pagination :: "SearchPlan \<Rightarrow> PricedProperty list \<Rightarrow> 'e + SearchResult"

definition stage_order :: "stage_name list" where
  "stage_order = [Candidate, Availability, StayRules, Pricing, Ranking, Pagination]"

definition search_with ::
  "runtime \<Rightarrow> 'e stages \<Rightarrow> SearchInput \<Rightarrow> stage_name list \<times> ('e failure + SearchResult)" where
  "search_with rt st inp =
     (case buildSearchPlan rt inp of
        Inl e \<Rightarrow> ([], Inl (PlanFailure e))
      | Inr plan \<Rightarrow>
     (case st_candidate st plan of
        Inl e \<Rightarrow> ([Candidate], Inl (StageFailure e))
      | Inr candidates \<Rightarrow>
     (case st_availability st plan candidates of
        Inl e \<Rightarrow> ([Candidate, Availability], Inl (StageFailure e))
      | Inr avail \<Rightarrow>
     (case st_stayRules st plan avail of
        Inl e \<Rightarrow> ([Candidate, Availability, StayRules], Inl (StageFailure e))
      | Inr afterStayRules \<Rightarrow>
     (case st_pricing st plan afterStayRules of
        Inl e \<Rightarrow> ([Candidate, Availability, StayRules, Pricing], Inl (StageFailure e))
      | Inr priced \<Rightarrow>
     (case st_ranking st plan priced of
        Inl e \<Rightarrow> ([Candidate, Availability, StayRules, Pricing, Ranking], Inl (StageFailure e))
      | Inr ranked \<Rightarrow>
     (case st_pagination st plan ranked of
        Inl e \<Rightarrow> (stage_order, Inl (StageFailure e))
      | Inr result \<Rightarrow> (stage_order, Inr result))))))))"

text \<open>The stages as shipped: only the candidate stage can fail (the store).\<close>

definition shipped_stages ::
  "runtime \<Rightarrow> (sql_query \<Rightarrow> 'e + CandidateRow list) \<Rightarrow> 'e stages" where
  "shipped_stages rt db =
     \<lparr>st_candidate = candidate rt db,
      st_availability = (\<lambda>plan cs. Inr (availability plan cs)),
      st_stayRules = (\<lambda>plan ps. Inr (stayRules plan ps)),
      st_pricing = (\<lambda>plan ps. Inr (pricing plan ps)),
      st_ranking = (\<lambda>plan ps. Inr (ranking plan ps)),
      st_pagination = (\<lambda>plan ps. Inr (pagination plan ps))\<rparr>"

definition search ::
  "runtime \<Rightarrow> (sql_query \<Rightarrow> 'e + CandidateRow list) \<Rightarrow> SearchInput \<Rightarrow>
   stage_name list \<times> ('e failure + SearchResult)" where
  "search rt db inp = search_with rt (shipped_stages rt db) inp"

section \<open>Objects, references and freezing\<close>

text \<open>
  Where sharing matters the objects live in a store: an address is an index, an object
  is its own properties and the flag set by \<open>Object.freeze\<close>. An object literal, a
  spread copy and \<open>new Date\<close> allocate a fresh object at the end of the store.
\<close>

record jsobject =
  props :: "string \<rightharpoonup> jsval"
  frozen :: bool

type_synonym heap = "jsobject list"

definition alloc :: "heap \<Rightarrow> jsobject \<Rightarrow> addr \<times> heap" where
  "alloc h ob = (length h, h @ [ob])"

definition heap_get :: "heap \<Rightarrow> addr \<Rightarrow> string \<Rightarrow> jsval" where
  "heap_get h a k = (if a < length h then get_prop (props (h ! a)) k else JUndefined)"

text \<open>
  What a holder of a reference can do to an object: assign or delete a property. On a
  frozen object neither changes anything (in a module, which is strict code, the
  attempt throws).
\<close>

datatype mutation = SetProp addr string jsval | DeleteProp addr string

fun target :: "mutation \<Rightarrow> addr" where
  "target (SetProp a k v) = a"
| "target (DeleteProp a k) = a"

fun mutate :: "heap \<Rightarrow> mutation \<Rightarrow> heap" where
  "mutate h (SetProp a k v) =
     (if a < length h \<and> \<not> frozen (h ! a)
      then h[a := (h ! a)\<lparr>props := (props (h ! a))(k \<mapsto> v)\<rparr>] else h)"
| "mutate h (DeleteProp a k) =
     (if a < length h \<and> \<not> frozen (h ! a)
      then h[a := (h ! a)\<lparr>props := (props (h ! a))(k := None)\<rparr>] else h)"

definition mutate_all :: "heap \<Rightarrow> mutation list \<Rightarrow> heap" where
  "mutate_all h ms = foldl mutate h ms"

text \<open>Reading \<open>v.k1.k2...\<close>: what is observable through a value.\<close>

fun read_path :: "heap \<Rightarrow> jsval \<Rightarrow> string list \<Rightarrow> jsval" where
  "read_path h v [] = v"
| "read_path h v (k # ks) =
     (case v of JObj a \<Rightarrow> read_path h (heap_get h a k) ks | _ \<Rightarrow> JUndefined)"

text \<open>
  The request object as the plan builder reads it. \<open>filters\<close> is an object or absent,
  as its type says.
\<close>

definition read_input :: "heap \<Rightarrow> addr \<Rightarrow> SearchInput" where
  "read_input h a =
     \<lparr>latitude = heap_get h a ''latitude'',
      longitude = heap_get h a ''longitude'',
      checkIn = heap_get h a ''checkIn'',
      checkOut = heap_get h a ''checkOut'',
      adults = heap_get h a ''adults'',
      children = heap_get h a ''children'',
      page = heap_get h a ''page'',
      pageSize = heap_get h a ''pageSize'',
      filters =
        (case heap_get h a ''filters'' of
           JObj f \<Rightarrow> if f < length h then Some (props (h ! f)) else None
         | _ \<Rightarrow> None)\<rparr>"

definition date_object :: "int \<Rightarrow> jsobject" where
  "date_object t = \<lparr>props = [''time'' \<mapsto> JNum (Fin (of_int t))], frozen = False\<rparr>"

definition geo_object :: "geo_point option \<Rightarrow> jsobject" where
  "geo_object g =
     \<lparr>props = (case g of None \<Rightarrow> Map.empty
               | Some gp \<Rightarrow> [''lat'' \<mapsto> JNum (lat gp), ''lon'' \<mapsto> JNum (lon gp)]),
      frozen = True\<rparr>"

definition plan_object ::
  "SearchPlan \<Rightarrow> addr \<Rightarrow> addr \<Rightarrow> addr \<Rightarrow> addr \<Rightarrow> jsval \<Rightarrow> jsobject" where
  "plan_object plan a d1 d2 g optv =
     \<lparr>props =
        [''input'' \<mapsto> JObj a,
         ''checkInDate'' \<mapsto> JObj d1,
         ''checkOutDate'' \<mapsto> JObj d2,
         ''nights'' \<mapsto> JNum (nights plan),
         ''guests'' \<mapsto> JNum (guests plan),
         ''page'' \<mapsto> JNum (plan_page plan),
         ''pageSize'' \<mapsto> JNum (plan_pageSize plan),
         ''geo'' \<mapsto> JObj g,
         ''radius'' \<mapsto> JNum (radius plan),
         ''hasChildren'' \<mapsto> JBool (hasChildren plan),
         ''options'' \<mapsto> optv],
      frozen = True\<rparr>"

text \<open>\<open>input.filters ? { ...input.filters } : undefined\<close>: a fresh, unfrozen copy.\<close>

definition alloc_options :: "heap \<Rightarrow> (string \<rightharpoonup> jsval) option \<Rightarrow> jsval \<times> heap" where
  "alloc_options h fo =
     (case fo of
        None \<Rightarrow> (JUndefined, h)
      | Some m \<Rightarrow> (JObj (length h), h @ [\<lparr>props = m, frozen = False\<rparr>]))"

text \<open>
  \<open>buildSearchPlan\<close> on the store: the plan is computed from the request object at \<open>a\<close>;
  the two dates, \<open>geo\<close>, the spread copy of \<open>filters\<close> and the plan itself are fresh
  objects; \<open>plan.input\<close> is the reference \<open>a\<close> itself; \<open>geo\<close> and the plan are frozen.
\<close>

definition buildSearchPlan_heap ::
  "runtime \<Rightarrow> heap \<Rightarrow> addr \<Rightarrow> SearchPlanErrorCode + (addr \<times> heap)" where
  "buildSearchPlan_heap rt h a =
     (case buildSearchPlan rt (read_input h a) of
        Inl e \<Rightarrow> Inl e
      | Inr plan \<Rightarrow>
          let d1 = length h;
              d2 = length h + 1;
              g = length h + 2;
              h3 = h @ [date_object (checkInDate plan), date_object (checkOutDate plan),
                        geo_object (geo plan)];
              (optv, h4) = alloc_options h3 (options plan);
              (p, h5) = alloc h4 (plan_object plan a d1 d2 g optv)
          in Inr (p, h5))"

section \<open>Sample data\<close>

text \<open>
  A runtime for the examples: it knows the two dates of the repository's test script
  (midnight UTC) and rounds a whole number below \<open>2^53\<close>, which is a double, to itself;
  no example converts a string or an object to a number or rounds another value.
\<close>

definition sample_runtime :: runtime where
  "sample_runtime =
     \<lparr>parse_date = (\<lambda>s. if s = ''2026-01-12'' then Some 1768176000000
                        else if s = ''2026-01-14'' then Some 1768348800000 else None),
      string_to_number = (\<lambda>s. NaN),
      object_to_number = (\<lambda>a. NaN),
      number_to_string = (\<lambda>x. ''?''),
      round_double = (\<lambda>x. if of_int \<lfloor>x\<rfloor> = x \<and> \<bar>x\<bar> < 2 ^ 53 then Fin x else NaN)\<rparr>"

definition sample_input :: SearchInput where
  "sample_input =
     \<lparr>latitude = JNum (Fin 52.3676), longitude = JNum (Fin 4.9041),
      checkIn = JStr ''2026-01-12'', checkOut = JStr ''2026-01-14'',
      adults = JNum (Fin 2), children = JUndefined, page = JUndefined, pageSize = JUndefined,
      filters = Some [''radiusKm'' \<mapsto> JNum (Fin 100)]\<rparr>"

definition sample_plan :: SearchPlan where
  "sample_plan =
     \<lparr>input = sample_input, checkInDate = 1768176000000, checkOutDate = 1768348800000,
      nights = Fin 2, guests = Fin 2, plan_page = Fin 1, plan_pageSize = Fin 20,
      geo = Some \<lparr>lat = Fin 52.3676, lon = Fin 4.9041\<rparr>, radius = Fin 100,
      hasChildren = False, options = Some [''radiusKm'' \<mapsto> JNum (Fin 100)]\<rparr>"

definition sample_property :: "nat \<Rightarrow> PricedProperty" where
  "sample_property i =
     \<lparr>c_id = string_of_nat i, c_name = ''Property'', propertyType = None, location = None,
      distance_meters = None, destinationId = None, amenities = None, bedrooms = None,
      bathrooms = None, maxGuests = None, available = True, unitId = None,
      totalPrice = Fin 100, currency = ''EUR'', pricePerNight = None, breakdown = None\<rparr>"

definition sample_row :: CandidateRow where
  "sample_row =
     \<lparr>row_id = ''7'', row_name = Some ''Canal House'', row_city = Some ''Amsterdam'',
      row_country = Some ''NL'', row_distance_meters = JNum (Fin 1234.56),
      row_max_guests = JNull, row_destination_id = None\<rparr>"

text \<open>A store holding the sample request at address 0 and its filter map at address 1.\<close>

definition sample_heap :: heap where
  "sample_heap =
     [\<lparr>props = [''latitude'' \<mapsto> JNum (Fin 52.3676), ''longitude'' \<mapsto> JNum (Fin 4.9041),
                ''checkIn'' \<mapsto> JStr ''2026-01-12'', ''checkOut'' \<mapsto> JStr ''2026-01-14'',
                ''adults'' \<mapsto> JNum (Fin 2), ''filters'' \<mapsto> JObj 1],
       frozen = False\<rparr>,
      \<lparr>props = [''radiusKm'' \<mapsto> JNum (Fin 100)], frozen = False\<rparr>]"

text \<open>The store after the plan of the sample request has been built: the plan is at address 6.\<close>

definition sample_plan_heap :: heap where
  "sample_plan_heap =
     sample_heap @
     [date_object 1768176000000, date_object 1768348800000,
      geo_object (Some \<lparr>lat = Fin 52.3676, lon = Fin 4.9041\<rparr>),
      \<lparr>props = [''radiusKm'' \<mapsto> JNum (Fin 100)], frozen = False\<rparr>,
      plan_object sample_plan 0 2 3 4 (JObj 5)]"

section \<open>Properties\<close>

subsection \<open>Numbers\<close>

lemma isFinite_iff: "isFinite n \<longleftrightarrow> (\<exists>x. n = Fin x)"
  by (cases n) auto

lemma clamp_Fin: "js_min (Fin hi) (js_max (Fin lo) (Fin x)) = Fin (min hi (max lo x))"
  by (auto simp: min_def max_def)

subsection \<open>The search radius\<close>

lemma extractRadiusKm_None: "extractRadiusKm rt None = Fin 10"
  by (simp add: extractRadiusKm_def DEFAULT_RADIUS_KM_def)

lemma extractRadiusKm_Some:
  "extractRadiusKm rt (Some f) =
     (let r = coalesce (get_prop f ''radiusKm'') (get_prop f ''radius'') in
      if nullish r then Fin 10
      else case to_number rt r of Fin x \<Rightarrow> Fin (min 500 (max 1 x)) | _ \<Rightarrow> Fin 10)"
  by (cases "to_number rt (coalesce (get_prop f ''radiusKm'') (get_prop f ''radius''))")
     (simp_all add: extractRadiusKm_def DEFAULT_RADIUS_KM_def MAX_RADIUS_KM_def MIN_RADIUS_KM_def
        Let_def clamp_Fin del: js_min.simps js_max.simps)

lemma extractRadiusKm_bounds: "\<exists>x. extractRadiusKm rt fo = Fin x \<and> 1 \<le> x \<and> x \<le> 500"
proof (cases fo)
  case None
  then show ?thesis by (simp add: extractRadiusKm_None)
next
  case (Some f)
  show ?thesis
    unfolding Some extractRadiusKm_Some Let_def
    by (cases "to_number rt (coalesce (get_prop f ''radiusKm'') (get_prop f ''radius''))") auto
qed

lemma buildSearchPlan_radius:
  "buildSearchPlan rt inp = Inr plan \<Longrightarrow> radius plan = extractRadiusKm rt (filters inp)"
  by (auto simp: buildSearchPlan_def Let_def split: sum.splits if_splits)

lemma buildSearchPlan_filters_accept:
  "isl (buildSearchPlan rt (inp\<lparr>filters := fo\<rparr>)) = isl (buildSearchPlan rt inp)"
  by (auto simp: buildSearchPlan_def parseGeo_def Let_def split: sum.splits if_splits)

lemma sample_plan_built: "buildSearchPlan sample_runtime sample_input = Inr sample_plan"
  by (simp add: buildSearchPlan_def sample_runtime_def sample_input_def sample_plan_def
      parseDate_def trim_def is_space_def parseNumber_def parseGeo_def extractRadiusKm_Some
      Let_def coalesce_def get_prop_def MS_PER_DAY_def DEFAULT_PAGE_def DEFAULT_PAGE_SIZE_def js_gt_def
      LAT_MIN_def LAT_MAX_def LON_MIN_def LON_MAX_def)

text \<open>
  Claim C7. The radius of a built plan is the value \<open>extractRadiusKm\<close> computes from the
  filters, and that value is always a finite number in \<open>[1, 500]\<close>: 10 when the filter
  map is missing or both keys are absent or null; otherwise \<open>radiusKm\<close>, or the legacy
  \<open>radius\<close> when \<open>radiusKm\<close> is absent or null, clamped into \<open>[1, 500]\<close>, and 10 when
  the value read is not a finite number. The filters never decide whether a plan is built.
\<close>

theorem radius_normalised:
  "(\<exists>x. extractRadiusKm rt fo = Fin x \<and> 1 \<le> x \<and> x \<le> 500) \<and>
   extractRadiusKm rt None = Fin 10 \<and>
   (nullish (get_prop f ''radiusKm'') \<and> nullish (get_prop f ''radius'') \<longrightarrow>
      extractRadiusKm rt (Some f) = Fin 10) \<and>
   (\<not> nullish (get_prop f ''radiusKm'') \<longrightarrow>
      extractRadiusKm rt (Some f) =
        (case to_number rt (get_prop f ''radiusKm'') of
           Fin x \<Rightarrow> Fin (min 500 (max 1 x)) | _ \<Rightarrow> Fin 10)) \<and>
   (nullish (get_prop f ''radiusKm'') \<and> \<not> nullish (get_prop f ''radius'') \<longrightarrow>
      extractRadiusKm rt (Some f) =
        (case to_number rt (get_prop f ''radius'') of
           Fin x \<Rightarrow> Fin (min 500 (max 1 x)) | _ \<Rightarrow> Fin 10)) \<and>
   (buildSearchPlan rt inp = Inr plan \<longrightarrow>
      radius plan = extractRadiusKm rt (filters inp) \<and>
      (\<exists>x. radius plan = Fin x \<and> 1 \<le> x \<and> x \<le> 500)) \<and>
   isl (buildSearchPlan rt (inp\<lparr>filters := fo'\<rparr>)) = isl (buildSearchPlan rt inp)"
proof -
  have own: "\<exists>x. extractRadiusKm rt fo = Fin x \<and> 1 \<le> x \<and> x \<le> 500"
    by (rule extractRadiusKm_bounds)
  have both: "nullish (get_prop f ''radiusKm'') \<and> nullish (get_prop f ''radius'') \<longrightarrow>
      extractRadiusKm rt (Some f) = Fin 10"
    by (simp add: extractRadiusKm_Some coalesce_def)
  have km: "\<not> nullish (get_prop f ''radiusKm'') \<longrightarrow>
      extractRadiusKm rt (Some f) =
        (case to_number rt (get_prop f ''radiusKm'') of
           Fin x \<Rightarrow> Fin (min 500 (max 1 x)) | _ \<Rightarrow> Fin 10)"
    by (simp add: extractRadiusKm_Some coalesce_def)
  have legacy: "nullish (get_prop f ''radiusKm'') \<and> \<not> nullish (get_prop f ''radius'') \<longrightarrow>
      extractRadiusKm rt (Some f) =
        (case to_number rt (get_prop f ''radius'') of
           Fin x \<Rightarrow> Fin (min 500 (max 1 x)) | _ \<Rightarrow> Fin 10)"
    by (simp add: extractRadiusKm_Some coalesce_def)
  have built: "buildSearchPlan rt inp = Inr plan \<longrightarrow>
      radius plan = extractRadiusKm rt (filters inp) \<and>
      (\<exists>x. radius plan = Fin x \<and> 1 \<le> x \<and> x \<le> 500)"
    using extractRadiusKm_bounds [of rt "filters inp"] by (auto dest: buildSearchPlan_radius)
  show ?thesis
    using own both km legacy built extractRadiusKm_None buildSearchPlan_filters_accept by blast
qed

theorem radius_normalised_witness:
  "buildSearchPlan sample_runtime sample_input = Inr sample_plan \<and>
   radius sample_plan = extractRadiusKm sample_runtime (filters sample_input) \<and>
   radius sample_plan = Fin 100 \<and>
   extractRadiusKm sample_runtime (Some [''radius'' \<mapsto> JNum (Fin 0.5)]) = Fin 1 \<and>
   extractRadiusKm sample_runtime (Some [''radiusKm'' \<mapsto> JNum PInf]) = Fin 10"
  using radius_normalised [of sample_runtime None "[''radius'' \<mapsto> JNum (Fin 0.5)]" sample_input sample_plan None]
    radius_normalised [of sample_runtime None "[''radiusKm'' \<mapsto> JNum PInf]" sample_input sample_plan None]
    sample_plan_built
  by (simp add: get_prop_def sample_plan_def)


subsection \<open>Page and page size\<close>

lemma parseNumber_eq:
  "parseNumber rt v d (Fin lo) (Fin hi) =
     (if nullish v then d
      else case to_number rt v of Fin x \<Rightarrow> Fin (min hi (max lo (of_int \<lfloor>x\<rfloor>))) | _ \<Rightarrow> d)"
  by (cases "to_number rt v")
     (simp_all add: parseNumber_def Let_def clamp_Fin del: js_min.simps js_max.simps)

lemma buildSearchPlan_page:
  "buildSearchPlan rt inp = Inr plan \<Longrightarrow>
   plan_page plan = parseNumber rt (page inp) (Fin 1) (Fin 1) (Fin 9007199254740991) \<and>
   plan_pageSize plan = parseNumber rt (pageSize inp) (Fin 20) (Fin 1) (Fin 100)"
  by (auto simp: buildSearchPlan_def Let_def DEFAULT_PAGE_def MIN_PAGE_def MAX_SAFE_INTEGER_def
      DEFAULT_PAGE_SIZE_def MIN_PAGE_SIZE_def MAX_PAGE_SIZE_def split: sum.splits if_splits)

lemma buildSearchPlan_paging_accept:
  "isl (buildSearchPlan rt (inp\<lparr>page := v, pageSize := w\<rparr>)) = isl (buildSearchPlan rt inp)"
  by (auto simp: buildSearchPlan_def parseGeo_def Let_def split: sum.splits if_splits)

lemma clamped_floor_int:
  "(lo::int) \<le> hi \<Longrightarrow>
   \<exists>p. Fin (min (of_int hi) (max (of_int lo) (of_int \<lfloor>x::real\<rfloor>))) = Fin (of_int p) \<and> lo \<le> p \<and> p \<le> hi"
  by (rule exI [of _ "min hi (max lo \<lfloor>x\<rfloor>)"]) (simp add: of_int_min of_int_max)

lemma parseNumber_int_range:
  assumes "(lo::int) \<le> d" "d \<le> hi"
  shows "\<exists>p. parseNumber rt v (Fin (of_int d)) (Fin (of_int lo)) (Fin (of_int hi)) = Fin (of_int p) \<and> lo \<le> p \<and> p \<le> hi"
proof -
  have le: "lo \<le> hi" using assms by simp
  show ?thesis
    unfolding parseNumber_eq
    using assms clamped_floor_int [OF le]
    by (cases "to_number rt v") auto
qed

lemma built_page_int:
  assumes "buildSearchPlan rt inp = Inr plan"
  shows "\<exists>p. plan_page plan = Fin (of_int p) \<and> 1 \<le> p \<and> p \<le> 9007199254740991"
    and "\<exists>s. plan_pageSize plan = Fin (of_int s) \<and> 1 \<le> s \<and> s \<le> 100"
  using buildSearchPlan_page [OF assms]
    parseNumber_int_range [of 1 1 9007199254740991 rt "page inp"]
    parseNumber_int_range [of 1 20 100 rt "pageSize inp"]
  by auto

text \<open>
  Claim C6, as amended. In every built plan \<open>page\<close> is an integer in
  \<open>[1, 2^53 - 1]\<close> and \<open>pageSize\<close> an integer in \<open>[1, 100]\<close>: an absent or null value,
  and one whose \<open>Number(...)\<close> is not finite, gives the default (1, respectively 20);
  a finite value is floored and clamped, \<open>page\<close> into \<open>[1, Number.MAX_SAFE_INTEGER]\<close> and
  \<open>pageSize\<close> into \<open>[1, 100]\<close>. Neither value decides whether a plan is built.
\<close>

theorem paging_normalised:
  "(buildSearchPlan rt inp = Inr plan \<longrightarrow>
      plan_page plan =
        (if nullish (page inp) then Fin 1
         else case to_number rt (page inp) of
                Fin x \<Rightarrow> Fin (min 9007199254740991 (max 1 (of_int \<lfloor>x\<rfloor>)))
              | _ \<Rightarrow> Fin 1) \<and>
      plan_pageSize plan =
        (if nullish (pageSize inp) then Fin 20
         else case to_number rt (pageSize inp) of
                Fin x \<Rightarrow> Fin (min 100 (max 1 (of_int \<lfloor>x\<rfloor>)))
              | _ \<Rightarrow> Fin 20) \<and>
      (\<exists>p. plan_page plan = Fin (of_int p) \<and> 1 \<le> p \<and> p \<le> 9007199254740991) \<and>
      (\<exists>s. plan_pageSize plan = Fin (of_int s) \<and> 1 \<le> s \<and> s \<le> 100)) \<and>
   isl (buildSearchPlan rt (inp\<lparr>page := v, pageSize := w\<rparr>)) = isl (buildSearchPlan rt inp)"
  using built_page_int [of rt inp plan] buildSearchPlan_page [of rt inp plan]
    buildSearchPlan_paging_accept [where rt = rt and inp = inp and v = v and w = w]
  by (simp add: parseNumber_eq)

lemma sample_plan_paged:
  "buildSearchPlan sample_runtime (sample_input\<lparr>page := v, pageSize := w\<rparr>) =
     Inr (sample_plan\<lparr>input := sample_input\<lparr>page := v, pageSize := w\<rparr>,
            plan_page := parseNumber sample_runtime v (Fin 1) (Fin 1) (Fin 9007199254740991),
            plan_pageSize := parseNumber sample_runtime w (Fin 20) (Fin 1) (Fin 100)\<rparr>)"
  by (simp add: buildSearchPlan_def sample_runtime_def sample_input_def sample_plan_def
      parseDate_def trim_def is_space_def parseGeo_def extractRadiusKm_Some
      Let_def coalesce_def get_prop_def MS_PER_DAY_def DEFAULT_PAGE_def DEFAULT_PAGE_SIZE_def js_gt_def
      LAT_MIN_def LAT_MAX_def LON_MIN_def LON_MAX_def MIN_PAGE_def MAX_SAFE_INTEGER_def
      MIN_PAGE_SIZE_def MAX_PAGE_SIZE_def)

theorem paging_normalised_witness:
  "map_sum id (\<lambda>p. (plan_page p, plan_pageSize p))
     (buildSearchPlan sample_runtime
        (sample_input\<lparr>page := JNum (Fin 2.5), pageSize := JNum (Fin (- 5))\<rparr>)) = Inr (Fin 2, Fin 1) \<and>
   map_sum id (\<lambda>p. (plan_page p, plan_pageSize p))
     (buildSearchPlan sample_runtime
        (sample_input\<lparr>page := JNum NaN, pageSize := JNum (Fin 99999)\<rparr>)) = Inr (Fin 1, Fin 100)"
  using paging_normalised [where rt = sample_runtime
      and inp = "sample_input\<lparr>page := JNum (Fin 2.5), pageSize := JNum (Fin (- 5))\<rparr>"
      and v = JUndefined and w = JUndefined, unfolded sample_plan_paged]
    paging_normalised [where rt = sample_runtime
      and inp = "sample_input\<lparr>page := JNum NaN, pageSize := JNum (Fin 99999)\<rparr>"
      and v = JUndefined and w = JUndefined, unfolded sample_plan_paged]
  by (simp add: sample_plan_paged parseNumber_eq)

text \<open>
  The claim as written calls \<open>page\<close> unbounded above. The builder clamps it to
  \<open>Number.MAX_SAFE_INTEGER\<close>: the page \<open>2^53\<close> becomes \<open>2^53 - 1\<close>.
\<close>

theorem page_cap_counterexample:
  "map_sum id plan_page
     (buildSearchPlan sample_runtime (sample_input\<lparr>page := JNum (Fin 9007199254740992), pageSize := JUndefined\<rparr>))
     = Inr (Fin 9007199254740991) \<and>
   Fin 9007199254740991 \<noteq> Fin (max 1 (of_int \<lfloor>9007199254740992 :: real\<rfloor>))"
  by (simp add: sample_plan_paged parseNumber_eq)

subsection \<open>The query text and its bound values\<close>

lemma dropWhile_keeps: "xs \<noteq> [] \<Longrightarrow> \<not> P (hd xs) \<Longrightarrow> dropWhile P xs = xs"
  by (cases xs) auto

lemma trim_core:
  assumes a: "\<forall>ch\<in>set a. is_space ch" and b: "\<forall>ch\<in>set b. is_space ch"
    and c: "c \<noteq> []" "\<not> is_space (hd c)" "\<not> is_space (last c)"
  shows "trim (a @ c @ b) = c"
proof -
  have front: "dropWhile is_space (a @ c @ b) = c @ b"
    using a c by (cases c) (simp_all add: dropWhile_append2)
  have "dropWhile is_space (rev b @ rev c) = dropWhile is_space (rev c)"
    by (rule dropWhile_append2) (use b in auto)
  also have "\<dots> = rev c"
    using c by (intro dropWhile_keeps) (simp_all add: hd_rev)
  finally show ?thesis
    by (simp add: trim_def front)
qed

lemma trim_sql_template:
  assumes "wp = [] \<or> (\<exists>w. wp = nl @ CHR ''W'' # w)"
  shows "trim (sql_template wp sel hg wc k) =
     drop 1 (wp @ nl) @
     ''SELECT '' @ join '', '' sel @ nl @
     ''FROM properties p'' @ nl @
     (if hg then '', params'' else []) @ nl @
     ''WHERE '' @ wc @ nl @
     ''ORDER BY p.id'' @ nl @
     ''LIMIT $'' @ string_of_nat k @ '';''"
    (is "_ = ?c")
proof -
  have split: "sql_template wp sel hg wc k = (nl @ nl) @ ?c @ nl"
    using assms by (auto simp: sql_template_def nl_def)
  have "trim ((nl @ nl) @ ?c @ nl) = ?c"
  proof (rule trim_core)
    show "?c \<noteq> []" by simp
    show "\<not> is_space (hd ?c)"
      using assms by (auto simp: nl_def is_space_def)
    show "\<not> is_space (last ?c)"
      by (simp add: is_space_def)
  qed (simp_all add: nl_def is_space_def)
  then show ?thesis
    by (simp only: split)
qed

lemma with_params_text_shape: "\<exists>w. with_params_text a b = nl @ CHR ''W'' # w"
  by (simp add: with_params_text_def)

lemma sections_shape:
  assumes "geo_section rt plan (capacity_section plan) = (wp, conds, vals, sel, pos)"
  shows "pos = length vals + 1"
    and "wp = [] \<or> (\<exists>w. wp = nl @ CHR ''W'' # w)"
  using assms with_params_text_shape
  by (auto simp: geo_section_def capacity_section_def Let_def split: option.splits)

lemma sql_text_eq:
  assumes "geo_section rt plan (capacity_section plan) = (wp, conds, vals, sel, pos)"
  shows "sql_text (buildCandidateSql rt plan) =
     drop 1 (wp @ nl) @
     ''SELECT '' @ join '', '' sel @ nl @
     ''FROM properties p'' @ nl @
     (if geo plan \<noteq> None then '', params'' else []) @ nl @
     ''WHERE '' @ (if conds \<noteq> [] then join '' AND '' conds else ''TRUE'') @ nl @
     ''ORDER BY p.id'' @ nl @
     ''LIMIT $'' @ string_of_nat pos @ '';''"
  using trim_sql_template [OF sections_shape(2) [OF assms]]
  by (simp add: buildCandidateSql_def assms Let_def)

lemma sql_values_eq:
  assumes "geo_section rt plan (capacity_section plan) = (wp, conds, vals, sel, pos)"
  shows "sql_values (buildCandidateSql rt plan) = vals @ [JNum (resolveCandidateLimit plan)]"
  by (simp add: buildCandidateSql_def assms Let_def)

lemma resolveCandidateLimit_eq:
  "resolveCandidateLimit plan =
     (case opt_prop (options plan) ''candidateHardLimit'' of
        JNum (Fin x) \<Rightarrow> if 0 < x then Fin (min (of_int \<lfloor>x\<rfloor>) 3000) else Fin 1000
      | _ \<Rightarrow> Fin 1000)"
  by (auto simp: resolveCandidateLimit_def CANDIDATE_HARD_LIMIT_def CANDIDATE_HARD_LIMIT_MAX_def
      js_gt_def min_def split: jsval.splits jsnum.splits)

text \<open>
  Claim C2. The last bound value of the candidate query is the resolved limit, and the
  text ends with \<open>LIMIT $n;\<close> where \<open>n\<close> is the position of that value. The limit is
  never above 3000: it is 1000 when \<open>candidateHardLimit\<close> is absent, not a number or
  not finite, and when it is a finite number that is not positive; for a finite
  positive number it is the minimum of its floor and 3000.
\<close>

theorem candidate_limit_bounded:
  "sql_values (buildCandidateSql rt plan) \<noteq> [] \<and>
   last (sql_values (buildCandidateSql rt plan)) = JNum (resolveCandidateLimit plan) \<and>
   suffix (''LIMIT $'' @ string_of_nat (length (sql_values (buildCandidateSql rt plan))) @ '';'')
     (sql_text (buildCandidateSql rt plan)) \<and>
   (\<exists>x. resolveCandidateLimit plan = Fin x \<and> x \<le> 3000) \<and>
   ((\<forall>x. opt_prop (options plan) ''candidateHardLimit'' \<noteq> JNum (Fin x)) \<longrightarrow>
      resolveCandidateLimit plan = Fin 1000) \<and>
   (\<forall>x. opt_prop (options plan) ''candidateHardLimit'' = JNum (Fin x) \<longrightarrow>
      resolveCandidateLimit plan = (if 0 < x then Fin (min (of_int \<lfloor>x\<rfloor>) 3000) else Fin 1000))"
proof -
  obtain wp conds vals sel pos
    where sec: "geo_section rt plan (capacity_section plan) = (wp, conds, vals, sel, pos)"
    by (cases "geo_section rt plan (capacity_section plan)") auto
  have pos: "pos = length (sql_values (buildCandidateSql rt plan))"
    using sections_shape(1) [OF sec] by (simp add: sql_values_eq [OF sec])
  have "suffix (''LIMIT $'' @ string_of_nat pos @ '';'') (sql_text (buildCandidateSql rt plan))"
    unfolding sql_text_eq [OF sec] suffix_def
    by (rule exI [of _ "drop 1 (wp @ nl) @
     ''SELECT '' @ join '', '' sel @ nl @
     ''FROM properties p'' @ nl @
     (if geo plan \<noteq> None then '', params'' else []) @ nl @
     ''WHERE '' @ (if conds \<noteq> [] then join '' AND '' conds else ''TRUE'') @ nl @
     ''ORDER BY p.id'' @ nl"]) simp
  then have tail: "suffix (''LIMIT $'' @ string_of_nat (length (sql_values (buildCandidateSql rt plan))) @ '';'')
     (sql_text (buildCandidateSql rt plan))"
    by (simp only: pos)
  have vals: "sql_values (buildCandidateSql rt plan) \<noteq> [] \<and>
      last (sql_values (buildCandidateSql rt plan)) = JNum (resolveCandidateLimit plan)"
    by (simp add: sql_values_eq [OF sec])
  have bound: "\<exists>x. resolveCandidateLimit plan = Fin x \<and> x \<le> 3000"
    by (auto simp: resolveCandidateLimit_eq split: jsval.splits jsnum.splits)
  have dflt: "(\<forall>x. opt_prop (options plan) ''candidateHardLimit'' \<noteq> JNum (Fin x)) \<longrightarrow>
      resolveCandidateLimit plan = Fin 1000"
    by (auto simp: resolveCandidateLimit_eq split: jsval.splits jsnum.splits)
  have given: "\<forall>x. opt_prop (options plan) ''candidateHardLimit'' = JNum (Fin x) \<longrightarrow>
      resolveCandidateLimit plan = (if 0 < x then Fin (min (of_int \<lfloor>x\<rfloor>) 3000) else Fin 1000)"
    by (auto simp: resolveCandidateLimit_eq)
  show ?thesis
    using vals tail bound dflt given by blast
qed


theorem candidate_limit_bounded_witness:
  "last (sql_values (buildCandidateSql sample_runtime
      (sample_plan\<lparr>options := Some [''candidateHardLimit'' \<mapsto> JNum (Fin 50000.5)]\<rparr>))) = JNum (Fin 3000) \<and>
   resolveCandidateLimit
      (sample_plan\<lparr>options := Some [''candidateHardLimit'' \<mapsto> JNum (Fin 250.5)]\<rparr>) = Fin 250 \<and>
   resolveCandidateLimit
      (sample_plan\<lparr>options := Some [''candidateHardLimit'' \<mapsto> JStr ''9999'']\<rparr>) = Fin 1000 \<and>
   resolveCandidateLimit sample_plan = Fin 1000"
proof -
  let ?big = "sample_plan\<lparr>options := Some [''candidateHardLimit'' \<mapsto> JNum (Fin 50000.5)]\<rparr>"
  let ?mid = "sample_plan\<lparr>options := Some [''candidateHardLimit'' \<mapsto> JNum (Fin 250.5)]\<rparr>"
  let ?str = "sample_plan\<lparr>options := Some [''candidateHardLimit'' \<mapsto> JStr ''9999'']\<rparr>"
  have "opt_prop (options ?big) ''candidateHardLimit'' = JNum (Fin 50000.5)"
    by (simp add: opt_prop_def get_prop_def)
  with candidate_limit_bounded [of sample_runtime ?big]
  have "last (sql_values (buildCandidateSql sample_runtime ?big)) = JNum (resolveCandidateLimit ?big)"
    and "resolveCandidateLimit ?big
      = (if (0::real) < 50000.5 then Fin (min (of_int \<lfloor>50000.5::real\<rfloor>) 3000) else Fin 1000)"
    by blast+
  then have big: "last (sql_values (buildCandidateSql sample_runtime ?big)) = JNum (Fin 3000)"
    by simp
  have "opt_prop (options ?mid) ''candidateHardLimit'' = JNum (Fin 250.5)"
    by (simp add: opt_prop_def get_prop_def)
  with candidate_limit_bounded [of sample_runtime ?mid]
  have "resolveCandidateLimit ?mid
      = (if (0::real) < 250.5 then Fin (min (of_int \<lfloor>250.5::real\<rfloor>) 3000) else Fin 1000)"
    by blast
  then have mid: "resolveCandidateLimit ?mid = Fin 250"
    by simp
  have "\<forall>x. opt_prop (options ?str) ''candidateHardLimit'' \<noteq> JNum (Fin x)"
    by (simp add: opt_prop_def get_prop_def)
  with candidate_limit_bounded [of sample_runtime ?str]
  have str: "resolveCandidateLimit ?str = Fin 1000"
    by blast
  have "\<forall>x. opt_prop (options sample_plan) ''candidateHardLimit'' \<noteq> JNum (Fin x)"
    by (simp add: opt_prop_def get_prop_def sample_plan_def)
  with candidate_limit_bounded [of sample_runtime sample_plan]
  have "resolveCandidateLimit sample_plan = Fin 1000"
    by blast
  with big mid str show ?thesis
    by blast
qed


subsection \<open>Pagination\<close>

lemma slice_index_nat: "slice_index len (Fin (of_nat a)) = min a len"
  by (simp add: Let_def min_def)

lemma js_slice_nat:
  "js_slice xs (Fin (of_nat a)) (Fin (of_nat b)) = drop a (take b xs)"
  by (simp add: js_slice_def slice_index_nat Let_def drop_take min_def)

lemma page_start:
  "1 \<le> p \<Longrightarrow> js_mul (js_sub (Fin (of_nat p)) (Fin 1)) (Fin (of_nat s)) = Fin (of_nat ((p - 1) * s))"
  by (simp add: js_sub_def of_nat_diff)

lemma page_end:
  "1 \<le> p \<Longrightarrow> js_add (Fin (of_nat ((p - 1) * s))) (Fin (of_nat s)) = Fin (of_nat (p * s))"
  by (cases p) (simp_all add: algebra_simps)

lemma max_one_Fin: "js_max (Fin 1) (Fin (of_int c)) = Fin (of_int (max 1 c))"
  by (simp add: max_def)

lemma total_pages:
  assumes "1 \<le> s"
  shows "js_max (Fin 1) (js_ceil (js_div (Fin (of_nat n)) (Fin (of_nat s))))
     = Fin (of_int (max 1 \<lceil>real n / real s\<rceil>))"
proof -
  from assms have "js_div (Fin (of_nat n)) (Fin (of_nat s)) = Fin (real n / real s)"
    by simp
  then show ?thesis
    by (simp only: js_ceil.simps max_one_Fin)
qed

lemma pagination_eq:
  assumes "1 \<le> p" "1 \<le> s" "plan_page plan = Fin (of_nat p)" "plan_pageSize plan = Fin (of_nat s)"
  shows "pagination plan xs =
     \<lparr>res_properties = drop ((p - 1) * s) (take (p * s) xs),
      res_pagination = \<lparr>pg_page = Fin (of_nat p), pg_pageSize = Fin (of_nat s),
                         pg_total = Fin (of_nat (length xs)),
                         pg_totalPages = Fin (of_int (max 1 \<lceil>real (length xs) / real s\<rceil>))\<rparr>\<rparr>"
proof -
  have start: "js_mul (js_sub (plan_page plan) (Fin 1)) (plan_pageSize plan) = Fin (of_nat ((p - 1) * s))"
    unfolding assms(3,4) by (rule page_start [OF assms(1)])
  have stop: "js_add (Fin (of_nat ((p - 1) * s))) (plan_pageSize plan) = Fin (of_nat (p * s))"
    unfolding assms(4) by (rule page_end [OF assms(1)])
  have pages: "js_max (Fin 1) (js_ceil (js_div (Fin (of_nat (length xs))) (plan_pageSize plan)))
      = Fin (of_int (max 1 \<lceil>real (length xs) / real s\<rceil>))"
    unfolding assms(4) by (rule total_pages [OF assms(2)])
  show ?thesis
    unfolding pagination_def Let_def start stop pages js_slice_nat
    by (simp only: assms(3,4))
qed

lemma beyond_last_page:
  assumes "1 \<le> s" "max 1 \<lceil>real n / real s\<rceil> < int p"
  shows "n \<le> (p - 1) * s"
proof -
  from assms have p: "1 \<le> p" and c: "\<lceil>real n / real s\<rceil> \<le> int p - 1"
    by auto
  from c have "real n / real s \<le> of_int (int p - 1)"
    by (simp only: ceiling_le_iff)
  also have "of_int (int p - 1) = real (p - 1)"
    using p by (simp add: of_nat_diff)
  finally have "real n \<le> real (p - 1) * real s"
    using assms(1) by (simp add: pos_divide_le_eq)
  then have "real n \<le> real ((p - 1) * s)"
    by simp
  then show ?thesis
    by (simp only: of_nat_le_iff)
qed

lemma built_page_nat:
  assumes "buildSearchPlan rt inp = Inr plan"
  shows "\<exists>p s. 1 \<le> p \<and> 1 \<le> s \<and> s \<le> 100 \<and>
           plan_page plan = Fin (of_nat p) \<and> plan_pageSize plan = Fin (of_nat s)"
proof -
  from built_page_int [OF assms] obtain p s
    where p: "plan_page plan = Fin (of_int p)" "1 \<le> p"
      and s: "plan_pageSize plan = Fin (of_int s)" "1 \<le> s" "s \<le> 100"
    by blast
  have "plan_page plan = Fin (of_nat (nat p))" "plan_pageSize plan = Fin (of_nat (nat s))"
    using p s by simp_all
  moreover have "1 \<le> nat p" "1 \<le> nat s" "nat s \<le> 100"
    using p s by simp_all
  ultimately show ?thesis
    by blast
qed

text \<open>
  Claim C3. The result of the pagination stage depends on the plan only through
  \<open>page\<close> and \<open>pageSize\<close>. For a page \<open>p \<ge> 1\<close> and a page size \<open>s \<ge> 1\<close> (whole numbers,
  as in every built plan) the page is the slice of the list from index \<open>(p - 1) * s\<close>
  up to, not including, \<open>p * s\<close>; \<open>total\<close> is the length of the list and \<open>totalPages\<close>
  is \<open>max 1 (ceil (total / s))\<close>; a page beyond \<open>totalPages\<close> is empty, with the same
  metadata.
\<close>

theorem pagination_slice:
  "(plan_page plan = plan_page plan' \<and> plan_pageSize plan = plan_pageSize plan' \<longrightarrow>
      pagination plan xs = pagination plan' xs) \<and>
   (1 \<le> p \<and> 1 \<le> s \<and> plan_page plan = Fin (of_nat p) \<and> plan_pageSize plan = Fin (of_nat s) \<longrightarrow>
      res_properties (pagination plan xs) = drop ((p - 1) * s) (take (p * s) xs) \<and>
      res_pagination (pagination plan xs) =
        \<lparr>pg_page = Fin (of_nat p), pg_pageSize = Fin (of_nat s),
         pg_total = Fin (of_nat (length xs)),
         pg_totalPages = Fin (of_int (max 1 \<lceil>real (length xs) / real s\<rceil>))\<rparr> \<and>
      (max 1 \<lceil>real (length xs) / real s\<rceil> < int p \<longrightarrow>
         res_properties (pagination plan xs) = [])) \<and>
   (buildSearchPlan rt inp = Inr plan \<longrightarrow>
      (\<exists>p s. 1 \<le> p \<and> 1 \<le> s \<and> plan_page plan = Fin (of_nat p) \<and> plan_pageSize plan = Fin (of_nat s)))"
proof -
  have built: "buildSearchPlan rt inp = Inr plan \<longrightarrow>
      (\<exists>p s. 1 \<le> p \<and> 1 \<le> s \<and> plan_page plan = Fin (of_nat p) \<and> plan_pageSize plan = Fin (of_nat s))"
    using built_page_nat [of rt inp plan] by blast
  have pure: "plan_page plan = plan_page plan' \<and> plan_pageSize plan = plan_pageSize plan' \<longrightarrow>
      pagination plan xs = pagination plan' xs"
    by (simp add: pagination_def)
  have page: "res_properties (pagination plan xs) = drop ((p - 1) * s) (take (p * s) xs) \<and>
      res_pagination (pagination plan xs) =
        \<lparr>pg_page = Fin (of_nat p), pg_pageSize = Fin (of_nat s),
         pg_total = Fin (of_nat (length xs)),
         pg_totalPages = Fin (of_int (max 1 \<lceil>real (length xs) / real s\<rceil>))\<rparr> \<and>
      (max 1 \<lceil>real (length xs) / real s\<rceil> < int p \<longrightarrow>
         res_properties (pagination plan xs) = [])"
    if h: "1 \<le> p" "1 \<le> s" "plan_page plan = Fin (of_nat p)" "plan_pageSize plan = Fin (of_nat s)"
  proof -
    note eq = pagination_eq [OF h, of xs]
    have "res_properties (pagination plan xs) = []"
      if "max 1 \<lceil>real (length xs) / real s\<rceil> < int p"
      using beyond_last_page [OF h(2) that] by (simp add: eq)
    then show ?thesis
      by (simp add: eq)
  qed
  from pure page built show ?thesis
    by blast
qed

theorem pagination_slice_witness:
  "res_properties (pagination (sample_plan\<lparr>plan_page := Fin 3\<rparr>) (map sample_property [0..<45]))
     = map sample_property [40..<45] \<and>
   length (res_properties (pagination (sample_plan\<lparr>plan_page := Fin 3\<rparr>) (map sample_property [0..<45]))) = 5 \<and>
   res_pagination (pagination (sample_plan\<lparr>plan_page := Fin 3\<rparr>) (map sample_property [0..<45]))
     = \<lparr>pg_page = Fin 3, pg_pageSize = Fin 20, pg_total = Fin 45, pg_totalPages = Fin 3\<rparr> \<and>
   res_properties (pagination (sample_plan\<lparr>plan_page := Fin 4\<rparr>) (map sample_property [0..<45])) = []"
proof -
  let ?xs = "map sample_property [0..<45]"
  have three: "1 \<le> (3::nat) \<and> 1 \<le> (20::nat) \<and>
      plan_page (sample_plan\<lparr>plan_page := Fin 3\<rparr>) = Fin (of_nat 3) \<and>
      plan_pageSize (sample_plan\<lparr>plan_page := Fin 3\<rparr>) = Fin (of_nat 20)"
    by (simp add: sample_plan_def)
  have four: "1 \<le> (4::nat) \<and> 1 \<le> (20::nat) \<and>
      plan_page (sample_plan\<lparr>plan_page := Fin 4\<rparr>) = Fin (of_nat 4) \<and>
      plan_pageSize (sample_plan\<lparr>plan_page := Fin 4\<rparr>) = Fin (of_nat 20)"
    by (simp add: sample_plan_def)
  have beyond: "max 1 \<lceil>real (length ?xs) / real 20\<rceil> < int 4"
    by simp
  from three pagination_slice [where plan = "sample_plan\<lparr>plan_page := Fin 3\<rparr>"
      and plan' = sample_plan and p = 3 and s = 20 and xs = ?xs]
  have "res_properties (pagination (sample_plan\<lparr>plan_page := Fin 3\<rparr>) ?xs) = drop ((3 - 1) * 20) (take (3 * 20) ?xs)"
    and "res_pagination (pagination (sample_plan\<lparr>plan_page := Fin 3\<rparr>) ?xs) =
        \<lparr>pg_page = Fin (of_nat 3), pg_pageSize = Fin (of_nat 20),
         pg_total = Fin (of_nat (length ?xs)),
         pg_totalPages = Fin (of_int (max 1 \<lceil>real (length ?xs) / real 20\<rceil>))\<rparr>"
    by blast+
  moreover from four beyond pagination_slice [where plan = "sample_plan\<lparr>plan_page := Fin 4\<rparr>"
      and plan' = sample_plan and p = 4 and s = 20 and xs = ?xs]
  have "res_properties (pagination (sample_plan\<lparr>plan_page := Fin 4\<rparr>) ?xs) = []"
    by blast
  ultimately show ?thesis
    by (simp add: drop_map take_map)
qed


subsection \<open>The orchestrator\<close>

lemma search_with_plan_failure:
  "buildSearchPlan rt inp = Inl e \<Longrightarrow> search_with rt st inp = ([], Inl (PlanFailure e))"
  by (simp add: search_with_def)

lemma search_with_prefix: "prefix (fst (search_with rt st inp)) stage_order"
  by (simp add: search_with_def stage_order_def split: sum.splits)

lemma search_with_result:
  "snd (search_with rt st inp) = Inr r \<Longrightarrow> fst (search_with rt st inp) = stage_order"
  by (auto simp: search_with_def stage_order_def split: sum.splits)

lemma search_with_no_stage:
  "fst (search_with rt st inp) = [] \<longleftrightarrow> isl (buildSearchPlan rt inp)"
  by (simp add: search_with_def stage_order_def split: sum.splits)

text \<open>
  Claim C4. The orchestrator builds the plan first: when that fails no stage is called
  and the failure of the plan builder is the outcome. Otherwise the stages are called
  in the order candidate, availability, stayRules, pricing, ranking, pagination, each
  on the output of the one before; the first stage that fails ends the run, its
  failure is the outcome and no later stage is called. The stages called are always an
  initial segment of that order, and a result is returned only after all six.
\<close>

theorem search_runs_in_order:
  "(buildSearchPlan rt inp = Inl e \<longrightarrow> search_with rt st inp = ([], Inl (PlanFailure e))) \<and>
   (buildSearchPlan rt inp = Inr plan \<longrightarrow>
     (st_candidate st plan = Inl x \<longrightarrow>
        search_with rt st inp = ([Candidate], Inl (StageFailure x))) \<and>
     (st_candidate st plan = Inr cs \<longrightarrow>
     (st_availability st plan cs = Inl x \<longrightarrow>
        search_with rt st inp = ([Candidate, Availability], Inl (StageFailure x))) \<and>
     (st_availability st plan cs = Inr av \<longrightarrow>
     (st_stayRules st plan av = Inl x \<longrightarrow>
        search_with rt st inp = ([Candidate, Availability, StayRules], Inl (StageFailure x))) \<and>
     (st_stayRules st plan av = Inr sr \<longrightarrow>
     (st_pricing st plan sr = Inl x \<longrightarrow>
        search_with rt st inp =
          ([Candidate, Availability, StayRules, Pricing], Inl (StageFailure x))) \<and>
     (st_pricing st plan sr = Inr pr \<longrightarrow>
     (st_ranking st plan pr = Inl x \<longrightarrow>
        search_with rt st inp =
          ([Candidate, Availability, StayRules, Pricing, Ranking], Inl (StageFailure x))) \<and>
     (st_ranking st plan pr = Inr rk \<longrightarrow>
     (st_pagination st plan rk = Inl x \<longrightarrow>
        search_with rt st inp =
          ([Candidate, Availability, StayRules, Pricing, Ranking, Pagination],
           Inl (StageFailure x))) \<and>
     (st_pagination st plan rk = Inr r \<longrightarrow>
        search_with rt st inp =
          ([Candidate, Availability, StayRules, Pricing, Ranking, Pagination], Inr r)))))))) \<and>
   prefix (fst (search_with rt st inp)) stage_order \<and>
   (fst (search_with rt st inp) = [] \<longleftrightarrow> isl (buildSearchPlan rt inp)) \<and>
   (\<forall>r'. snd (search_with rt st inp) = Inr r' \<longrightarrow> fst (search_with rt st inp) = stage_order)"
proof -
  have stages: "buildSearchPlan rt inp = Inr plan \<longrightarrow>
     (st_candidate st plan = Inl x \<longrightarrow>
        search_with rt st inp = ([Candidate], Inl (StageFailure x))) \<and>
     (st_candidate st plan = Inr cs \<longrightarrow>
     (st_availability st plan cs = Inl x \<longrightarrow>
        search_with rt st inp = ([Candidate, Availability], Inl (StageFailure x))) \<and>
     (st_availability st plan cs = Inr av \<longrightarrow>
     (st_stayRules st plan av = Inl x \<longrightarrow>
        search_with rt st inp = ([Candidate, Availability, StayRules], Inl (StageFailure x))) \<and>
     (st_stayRules st plan av = Inr sr \<longrightarrow>
     (st_pricing st plan sr = Inl x \<longrightarrow>
        search_with rt st inp =
          ([Candidate, Availability, StayRules, Pricing], Inl (StageFailure x))) \<and>
     (st_pricing st plan sr = Inr pr \<longrightarrow>
     (st_ranking st plan pr = Inl x \<longrightarrow>
        search_with rt st inp =
          ([Candidate, Availability, StayRules, Pricing, Ranking], Inl (StageFailure x))) \<and>
     (st_ranking st plan pr = Inr rk \<longrightarrow>
     (st_pagination st plan rk = Inl x \<longrightarrow>
        search_with rt st inp =
          ([Candidate, Availability, StayRules, Pricing, Ranking, Pagination],
           Inl (StageFailure x))) \<and>
     (st_pagination st plan rk = Inr r \<longrightarrow>
        search_with rt st inp =
          ([Candidate, Availability, StayRules, Pricing, Ranking, Pagination], Inr r)))))))"
    by (simp add: search_with_def stage_order_def)
  show ?thesis
    using stages search_with_plan_failure [of rt inp e st] search_with_prefix [of rt st inp]
      search_with_no_stage [of rt st inp] search_with_result [of rt st inp]
    by blast
qed

lemma invalid_latitude_rejected:
  "buildSearchPlan sample_runtime (sample_input\<lparr>latitude := JNum (Fin 132)\<rparr>) = Inl INVALID_LATITUDE"
  by (simp add: buildSearchPlan_def sample_runtime_def sample_input_def
      parseDate_def trim_def is_space_def parseNumber_def parseGeo_def
      Let_def coalesce_def MS_PER_DAY_def js_gt_def
      LAT_MIN_def LAT_MAX_def LON_MIN_def LON_MAX_def)

theorem search_runs_in_order_witness:
  "search_with sample_runtime (shipped_stages sample_runtime (\<lambda>q. Inl ''store unavailable''))
      (sample_input\<lparr>latitude := JNum (Fin 132)\<rparr>) = ([], Inl (PlanFailure INVALID_LATITUDE)) \<and>
   search_with sample_runtime (shipped_stages sample_runtime (\<lambda>q. Inl ''store unavailable''))
      sample_input = ([Candidate], Inl (StageFailure ''store unavailable'')) \<and>
   search_with sample_runtime (shipped_stages sample_runtime (\<lambda>q. Inr [sample_row]) :: string stages)
      sample_input =
        ([Candidate, Availability, StayRules, Pricing, Ranking, Pagination],
         Inr (pagination sample_plan []))"
proof -
  let ?down = "shipped_stages sample_runtime (\<lambda>q. Inl ''store unavailable'') :: string stages"
  let ?up = "shipped_stages sample_runtime (\<lambda>q. Inr [sample_row]) :: string stages"
  have "search_with sample_runtime ?down (sample_input\<lparr>latitude := JNum (Fin 132)\<rparr>)
      = ([], Inl (PlanFailure INVALID_LATITUDE))"
    using search_runs_in_order [where rt = sample_runtime and st = ?down
        and inp = "sample_input\<lparr>latitude := JNum (Fin 132)\<rparr>" and e = INVALID_LATITUDE]
      invalid_latitude_rejected
    by blast
  moreover have "st_candidate ?down sample_plan = Inl ''store unavailable''"
    by (simp add: shipped_stages_def candidate_def runCandidateQuery_def)
  with search_runs_in_order [where rt = sample_runtime and st = ?down and inp = sample_input
        and plan = sample_plan and x = "''store unavailable''"] sample_plan_built
  have "search_with sample_runtime ?down sample_input = ([Candidate], Inl (StageFailure ''store unavailable''))"
    by blast
  moreover have "st_candidate ?up sample_plan = Inr [mapRowToCandidate sample_runtime sample_row]"
    "st_availability ?up sample_plan [mapRowToCandidate sample_runtime sample_row] = Inr []"
    "st_stayRules ?up sample_plan [] = Inr []"
    "st_pricing ?up sample_plan [] = Inr []"
    "st_ranking ?up sample_plan [] = Inr []"
    "st_pagination ?up sample_plan [] = Inr (pagination sample_plan [])"
    by (simp_all add: shipped_stages_def candidate_def runCandidateQuery_def availability_def
        stayRules_def pricing_def ranking_def)
  with search_runs_in_order [where rt = sample_runtime and st = ?up and inp = sample_input
        and plan = sample_plan and cs = "[mapRowToCandidate sample_runtime sample_row]"
        and av = "[]" and sr = "[]" and pr = "[]" and rk = "[]"
        and r = "pagination sample_plan []"] sample_plan_built
  have "search_with sample_runtime ?up sample_input =
        ([Candidate, Availability, StayRules, Pricing, Ranking, Pagination],
         Inr (pagination sample_plan []))"
    by blast
  ultimately show ?thesis
    by blast
qed


subsection \<open>Arrival before departure\<close>

lemma parseDate_same_value:
  "parseDate rt v FieldCheckIn = Inr a \<Longrightarrow> parseDate rt v FieldCheckOut = Inr b \<Longrightarrow> a = b"
  by (auto simp: parseDate_def split: jsval.splits if_splits option.splits)

lemma arrival_iff:
  assumes "parseDate rt (checkIn inp) FieldCheckIn = Inr ci"
    and "parseDate rt (checkOut inp) FieldCheckOut = Inr co"
  shows "buildSearchPlan rt inp = Inl ARRIVAL_AFTER_DEPARTURE \<longleftrightarrow> co \<le> ci"
  using assms
  by (auto simp: buildSearchPlan_def parseGeo_def Let_def split: sum.splits if_splits)

text \<open>
  Claim C5. When both date strings parse, the plan builder fails with
  \<open>ARRIVAL_AFTER_DEPARTURE\<close> exactly when the check-out time is not after the check-in
  time. Equal \<open>checkIn\<close> and \<open>checkOut\<close> values are such a case, and then the
  orchestrator calls no stage: the candidate query is never run.
\<close>

theorem arrival_after_departure:
  "parseDate rt (checkIn inp) FieldCheckIn = Inr ci \<and>
   parseDate rt (checkOut inp) FieldCheckOut = Inr co \<longrightarrow>
     (buildSearchPlan rt inp = Inl ARRIVAL_AFTER_DEPARTURE \<longleftrightarrow> co \<le> ci) \<and>
     (checkIn inp = checkOut inp \<longrightarrow> buildSearchPlan rt inp = Inl ARRIVAL_AFTER_DEPARTURE) \<and>
     (co \<le> ci \<longrightarrow>
        search_with rt st inp = ([], Inl (PlanFailure ARRIVAL_AFTER_DEPARTURE)) \<and>
        search rt db inp = ([], Inl (PlanFailure ARRIVAL_AFTER_DEPARTURE)))"
proof (intro impI, elim conjE)
  assume ci: "parseDate rt (checkIn inp) FieldCheckIn = Inr ci"
    and co: "parseDate rt (checkOut inp) FieldCheckOut = Inr co"
  note iff = arrival_iff [OF ci co]
  have same: "buildSearchPlan rt inp = Inl ARRIVAL_AFTER_DEPARTURE" if "checkIn inp = checkOut inp"
    using parseDate_same_value [of rt "checkIn inp" ci co] ci co that iff by simp
  have stop: "search_with rt st inp = ([], Inl (PlanFailure ARRIVAL_AFTER_DEPARTURE))"
    if "co \<le> ci"
    using that iff by (simp add: search_with_plan_failure)
  have shipped: "search rt db inp = ([], Inl (PlanFailure ARRIVAL_AFTER_DEPARTURE))"
    if "co \<le> ci"
    using that iff by (simp add: search_def search_with_plan_failure)
  show "(buildSearchPlan rt inp = Inl ARRIVAL_AFTER_DEPARTURE \<longleftrightarrow> co \<le> ci) \<and>
     (checkIn inp = checkOut inp \<longrightarrow> buildSearchPlan rt inp = Inl ARRIVAL_AFTER_DEPARTURE) \<and>
     (co \<le> ci \<longrightarrow>
        search_with rt st inp = ([], Inl (PlanFailure ARRIVAL_AFTER_DEPARTURE)) \<and>
        search rt db inp = ([], Inl (PlanFailure ARRIVAL_AFTER_DEPARTURE)))"
    using iff same stop shipped by blast
qed

theorem arrival_after_departure_witness:
  "parseDate sample_runtime (JStr ''2026-01-12'') FieldCheckIn = Inr 1768176000000 \<and>
   parseDate sample_runtime (JStr '' 2026-01-12 '') FieldCheckOut = Inr 1768176000000 \<and>
   buildSearchPlan sample_runtime (sample_input\<lparr>checkOut := JStr '' 2026-01-12 ''\<rparr>)
     = Inl ARRIVAL_AFTER_DEPARTURE \<and>
   search sample_runtime (\<lambda>q. Inr [sample_row] :: string + CandidateRow list)
     (sample_input\<lparr>checkOut := JStr '' 2026-01-12 ''\<rparr>)
     = ([], Inl (PlanFailure ARRIVAL_AFTER_DEPARTURE)) \<and>
   buildSearchPlan sample_runtime (sample_input\<lparr>checkOut := checkIn sample_input\<rparr>)
     = Inl ARRIVAL_AFTER_DEPARTURE \<and>
   buildSearchPlan sample_runtime sample_input \<noteq> Inl ARRIVAL_AFTER_DEPARTURE"
proof -
  let ?same = "sample_input\<lparr>checkOut := JStr '' 2026-01-12 ''\<rparr>"
  let ?eq = "sample_input\<lparr>checkOut := checkIn sample_input\<rparr>"
  have d1: "parseDate sample_runtime (JStr ''2026-01-12'') FieldCheckIn = Inr 1768176000000"
    and d2: "parseDate sample_runtime (JStr '' 2026-01-12 '') FieldCheckOut = Inr 1768176000000"
    and d3: "parseDate sample_runtime (JStr ''2026-01-12'') FieldCheckOut = Inr 1768176000000"
    and d4: "parseDate sample_runtime (JStr ''2026-01-14'') FieldCheckOut = Inr 1768348800000"
    by (simp_all add: parseDate_def sample_runtime_def trim_def is_space_def)
  have "parseDate sample_runtime (checkIn ?same) FieldCheckIn = Inr 1768176000000 \<and>
    parseDate sample_runtime (checkOut ?same) FieldCheckOut = Inr 1768176000000"
    using d1 d2 by (simp add: sample_input_def)
  with arrival_after_departure [where rt = sample_runtime and inp = ?same
      and ci = 1768176000000 and co = 1768176000000
      and st = "shipped_stages sample_runtime (\<lambda>q. Inr [sample_row] :: string + CandidateRow list)"
      and db = "\<lambda>q. Inr [sample_row] :: string + CandidateRow list"]
  have a: "buildSearchPlan sample_runtime ?same = Inl ARRIVAL_AFTER_DEPARTURE"
    and b: "search sample_runtime (\<lambda>q. Inr [sample_row] :: string + CandidateRow list) ?same
     = ([], Inl (PlanFailure ARRIVAL_AFTER_DEPARTURE))"
    by blast+
  have "parseDate sample_runtime (checkIn ?eq) FieldCheckIn = Inr 1768176000000 \<and>
    parseDate sample_runtime (checkOut ?eq) FieldCheckOut = Inr 1768176000000"
    using d1 d3 by (simp add: sample_input_def)
  with arrival_after_departure [where rt = sample_runtime and inp = ?eq
      and ci = 1768176000000 and co = 1768176000000
      and st = "shipped_stages sample_runtime (\<lambda>q. Inr [sample_row] :: string + CandidateRow list)"
      and db = "\<lambda>q. Inr [sample_row] :: string + CandidateRow list"]
  have c: "buildSearchPlan sample_runtime ?eq = Inl ARRIVAL_AFTER_DEPARTURE"
    by blast
  have "parseDate sample_runtime (checkIn sample_input) FieldCheckIn = Inr 1768176000000 \<and>
    parseDate sample_runtime (checkOut sample_input) FieldCheckOut = Inr 1768348800000"
    using d1 d4 by (simp add: sample_input_def)
  with arrival_after_departure [where rt = sample_runtime and inp = sample_input
      and ci = 1768176000000 and co = 1768348800000
      and st = "shipped_stages sample_runtime (\<lambda>q. Inr [sample_row] :: string + CandidateRow list)"
      and db = "\<lambda>q. Inr [sample_row] :: string + CandidateRow list"]
  have d: "buildSearchPlan sample_runtime sample_input \<noteq> Inl ARRIVAL_AFTER_DEPARTURE"
    by simp
  from d1 d2 a b c d show ?thesis
    by blast
qed

subsection \<open>The shipped pipeline\<close>

lemma pagination_empty:
  assumes "buildSearchPlan rt inp = Inr plan"
  shows "pagination plan [] =
     \<lparr>res_properties = [],
      res_pagination = \<lparr>pg_page = plan_page plan, pg_pageSize = plan_pageSize plan,
                         pg_total = Fin 0, pg_totalPages = Fin 1\<rparr>\<rparr>"
proof -
  from built_page_nat [OF assms] obtain p s
    where h: "1 \<le> p" "1 \<le> s" "plan_page plan = Fin (of_nat p)" "plan_pageSize plan = Fin (of_nat s)"
    by blast
  show ?thesis
    by (simp add: pagination_eq [OF h] h(3,4))
qed

text \<open>
  Claim C10. As shipped, the availability stage and the pricing stage return the empty
  list whatever they are given. So for every accepted request, whatever rows the store
  answers the candidate query with, the search runs all six stages and returns no
  properties, \<open>total = 0\<close> and \<open>totalPages = 1\<close>.
\<close>

theorem shipped_search_empty:
  "availability plan cs = [] \<and> pricing plan av = [] \<and>
   (buildSearchPlan rt inp = Inr plan \<and> db (buildCandidateSql rt plan) = Inr rows \<longrightarrow>
      search rt db inp =
        (stage_order,
         Inr \<lparr>res_properties = [],
              res_pagination = \<lparr>pg_page = plan_page plan, pg_pageSize = plan_pageSize plan,
                                 pg_total = Fin 0, pg_totalPages = Fin 1\<rparr>\<rparr>))"
proof -
  have "search rt db inp = (stage_order, Inr (pagination plan []))"
    if "buildSearchPlan rt inp = Inr plan" "db (buildCandidateSql rt plan) = Inr rows"
    using that
    by (simp add: search_def search_with_def shipped_stages_def candidate_def
        runCandidateQuery_def availability_def stayRules_def pricing_def ranking_def)
  then show ?thesis
    by (auto simp: pagination_empty availability_def pricing_def)
qed

theorem shipped_search_empty_witness:
  "search sample_runtime (\<lambda>q. Inr (replicate 7 sample_row) :: string + CandidateRow list) sample_input =
     (stage_order,
      Inr \<lparr>res_properties = [],
           res_pagination = \<lparr>pg_page = Fin 1, pg_pageSize = Fin 20,
                              pg_total = Fin 0, pg_totalPages = Fin 1\<rparr>\<rparr>)"
  using shipped_search_empty [where rt = sample_runtime and inp = sample_input and plan = sample_plan
      and db = "\<lambda>q. Inr (replicate 7 sample_row) :: string + CandidateRow list"
      and rows = "replicate 7 sample_row"]
    sample_plan_built
  by (simp add: sample_plan_def)


subsection \<open>Column allow-lists\<close>

lemma opt_prop_other_key:
  "k' \<noteq> k \<Longrightarrow> opt_prop (map_option (\<lambda>m. m(k := None)) mo) k' = opt_prop mo k'"
  by (cases mo) (simp_all add: opt_prop_def get_prop_def)

lemma opt_prop_removed:
  "opt_prop (map_option (\<lambda>m. m(k := None)) mo) k = JUndefined"
  by (cases mo) (simp_all add: opt_prop_def get_prop_def)

lemma buildCandidateSql_cong:
  assumes "getCapacityColumn plan = getCapacityColumn plan'"
    and "getGeoColumn plan = getGeoColumn plan'"
    and "resolveCandidateLimit plan = resolveCandidateLimit plan'"
    and "geo plan = geo plan'" "guests plan = guests plan'" "radius plan = radius plan'"
  shows "buildCandidateSql rt plan = buildCandidateSql rt plan'"
  using assms
  by (simp add: buildCandidateSql_def geo_section_def capacity_section_def Let_def
      split: option.splits)

lemma getCapacityColumn_eq:
  "getCapacityColumn plan =
     (if opt_prop (options plan) ''capacityColumn'' \<in> JStr ` set CAPACITY_COLUMNS
      then (case opt_prop (options plan) ''capacityColumn'' of JStr c \<Rightarrow> Some c | _ \<Rightarrow> None)
      else None)"
  by (auto simp: getCapacityColumn_def split: jsval.splits)

lemma getGeoColumn_eq:
  "getGeoColumn plan =
     (if opt_prop (options plan) ''geoColumn'' \<in> JStr ` set GEO_COLUMNS
      then (case opt_prop (options plan) ''geoColumn'' of JStr c \<Rightarrow> c | _ \<Rightarrow> ''location'')
      else ''location'')"
  by (auto simp: getGeoColumn_def split: jsval.splits)

lemma getGeoColumn_allowed: "getGeoColumn plan \<in> set GEO_COLUMNS"
  by (auto simp: getGeoColumn_def GEO_COLUMNS_def split: jsval.splits)

lemma getCapacityColumn_allowed: "getCapacityColumn plan = Some c \<Longrightarrow> c \<in> set CAPACITY_COLUMNS"
  by (auto simp: getCapacityColumn_def split: jsval.splits if_splits)

lemma capacity_ignored:
  assumes "opt_prop (options plan) ''capacityColumn'' \<notin> JStr ` set CAPACITY_COLUMNS"
  shows "buildCandidateSql rt plan =
     buildCandidateSql rt (plan\<lparr>options := map_option (\<lambda>m. m(''capacityColumn'' := None)) (options plan)\<rparr>)"
proof (rule buildCandidateSql_cong)
  let ?plan' = "plan\<lparr>options := map_option (\<lambda>m. m(''capacityColumn'' := None)) (options plan)\<rparr>"
  show "getCapacityColumn plan = getCapacityColumn ?plan'"
    using assms by (simp add: getCapacityColumn_eq opt_prop_removed)
  show "getGeoColumn plan = getGeoColumn ?plan'"
    by (simp add: getGeoColumn_def opt_prop_other_key)
  show "resolveCandidateLimit plan = resolveCandidateLimit ?plan'"
    by (simp add: resolveCandidateLimit_def opt_prop_other_key)
qed simp_all

lemma geo_ignored:
  assumes "opt_prop (options plan) ''geoColumn'' \<notin> JStr ` set GEO_COLUMNS"
  shows "buildCandidateSql rt plan =
     buildCandidateSql rt (plan\<lparr>options := map_option (\<lambda>m. m(''geoColumn'' := None)) (options plan)\<rparr>)"
proof (rule buildCandidateSql_cong)
  let ?plan' = "plan\<lparr>options := map_option (\<lambda>m. m(''geoColumn'' := None)) (options plan)\<rparr>"
  show "getGeoColumn plan = getGeoColumn ?plan'"
    using assms by (simp add: getGeoColumn_eq opt_prop_removed)
  show "getCapacityColumn plan = getCapacityColumn ?plan'"
    by (simp add: getCapacityColumn_def opt_prop_other_key)
  show "resolveCandidateLimit plan = resolveCandidateLimit ?plan'"
    by (simp add: resolveCandidateLimit_def opt_prop_other_key)
qed simp_all

lemma string_of_nat_small:
  "string_of_nat 1 = ''1''" "string_of_nat 2 = ''2''" "string_of_nat 3 = ''3''"
  "string_of_nat 4 = ''4''" "string_of_nat 5 = ''5''" "string_of_nat (Suc 0) = ''1''"
  by code_simp+

lemma no_capacity_texts:
  assumes "getCapacityColumn plan = None"
  shows "sql_text (buildCandidateSql rt plan) \<in>
    {''SELECT p.id, p.name, p.city, p.country'' @ nl @ ''FROM properties p'' @ nl @ nl @
     ''WHERE TRUE'' @ nl @ ''ORDER BY p.id'' @ nl @ ''LIMIT $1;'',
     ''WITH params AS ('' @ nl @ ''  SELECT'' @ nl @
     ''    ST_SetSRID(ST_MakePoint($1, $2), 4326)::geography AS p'' @ nl @ '')'' @ nl @
     ''SELECT p.id, p.name, p.city, p.country, ST_Distance(p.location::geography, params.p) AS distance_meters'' @ nl @
     ''FROM properties p'' @ nl @ '', params'' @ nl @
     ''WHERE ST_DWithin(p.location::geography, params.p, $3)'' @ nl @ ''ORDER BY p.id'' @ nl @ ''LIMIT $4;'',
     ''WITH params AS ('' @ nl @ ''  SELECT'' @ nl @
     ''    ST_SetSRID(ST_MakePoint($1, $2), 4326)::geography AS p'' @ nl @ '')'' @ nl @
     ''SELECT p.id, p.name, p.city, p.country, ST_Distance(p.geo::geography, params.p) AS distance_meters'' @ nl @
     ''FROM properties p'' @ nl @ '', params'' @ nl @
     ''WHERE ST_DWithin(p.geo::geography, params.p, $3)'' @ nl @ ''ORDER BY p.id'' @ nl @ ''LIMIT $4;''}"
proof (cases "geo plan")
  case None
  have "geo_section rt plan (capacity_section plan) =
      ([], [], [], [''p.id'', ''p.name'', ''p.city'', ''p.country''], 1)"
    using assms None by (simp add: geo_section_def capacity_section_def)
  from sql_text_eq [OF this] None show ?thesis
    by (simp add: string_of_nat_small nl_def)
next
  case (Some g)
  have "geo_section rt plan (capacity_section plan) =
      (with_params_text 1 2, [dwithin_text (getGeoColumn plan) 3],
       [JNum (lon g), JNum (lat g), JNum (js_mul_rounded rt (radius plan) (Fin 1000))],
       [''p.id'', ''p.name'', ''p.city'', ''p.country'', distance_text (getGeoColumn plan)], 4)"
    using assms Some by (simp add: geo_section_def capacity_section_def Let_def eval_nat_numeral)
  from sql_text_eq [OF this] Some getGeoColumn_allowed [of plan] show ?thesis
    by (auto simp: string_of_nat_small nl_def with_params_text_def
        dwithin_text_def distance_text_def GEO_COLUMNS_def)
qed

lemma drop_table_absent:
  "\<not> sublist ''DROP TABLE properties''
     (''SELECT p.id, p.name, p.city, p.country'' @ nl @ ''FROM properties p'' @ nl @ nl @
     ''WHERE TRUE'' @ nl @ ''ORDER BY p.id'' @ nl @ ''LIMIT $1;'')"
  "\<not> sublist ''DROP TABLE properties''
     (''WITH params AS ('' @ nl @ ''  SELECT'' @ nl @
     ''    ST_SetSRID(ST_MakePoint($1, $2), 4326)::geography AS p'' @ nl @ '')'' @ nl @
     ''SELECT p.id, p.name, p.city, p.country, ST_Distance(p.location::geography, params.p) AS distance_meters'' @ nl @
     ''FROM properties p'' @ nl @ '', params'' @ nl @
     ''WHERE ST_DWithin(p.location::geography, params.p, $3)'' @ nl @ ''ORDER BY p.id'' @ nl @ ''LIMIT $4;'')"
  "\<not> sublist ''DROP TABLE properties''
     (''WITH params AS ('' @ nl @ ''  SELECT'' @ nl @
     ''    ST_SetSRID(ST_MakePoint($1, $2), 4326)::geography AS p'' @ nl @ '')'' @ nl @
     ''SELECT p.id, p.name, p.city, p.country, ST_Distance(p.geo::geography, params.p) AS distance_meters'' @ nl @
     ''FROM properties p'' @ nl @ '', params'' @ nl @
     ''WHERE ST_DWithin(p.geo::geography, params.p, $3)'' @ nl @ ''ORDER BY p.id'' @ nl @ ''LIMIT $4;'')"
  by code_simp+

lemma properties_in_text: "sublist ''properties'' (sql_text (buildCandidateSql rt plan))"
proof -
  obtain wp conds vals sel pos
    where sec: "geo_section rt plan (capacity_section plan) = (wp, conds, vals, sel, pos)"
    by (cases "geo_section rt plan (capacity_section plan)") auto
  have "sql_text (buildCandidateSql rt plan) =
     (drop 1 (wp @ nl) @ ''SELECT '' @ join '', '' sel @ nl @ ''FROM '') @ ''properties'' @
     ('' p'' @ nl @ (if geo plan \<noteq> None then '', params'' else []) @ nl @
     ''WHERE '' @ (if conds \<noteq> [] then join '' AND '' conds else ''TRUE'') @ nl @
     ''ORDER BY p.id'' @ nl @ ''LIMIT $'' @ string_of_nat pos @ '';'')"
    by (simp add: sql_text_eq [OF sec])
  then show ?thesis
    by (simp only: sublist_appendI)
qed

text \<open>
  Claim C1, as amended. A \<open>capacityColumn\<close> option that is not one of the three
  allow-listed names is ignored: no capacity column is selected, and the query (text and
  bound values) is the one built when the option is absent, so the supplied value has
  no influence on the text. In the same way a \<open>geoColumn\<close> option outside the
  two allow-listed names gives the column \<open>location\<close> and the query built without the
  option. With \<open>capacityColumn = "DROP TABLE properties"\<close> that string does not occur
  in the text. The columns selected are always allow-listed names.
\<close>

theorem column_allow_list:
  "(opt_prop (options plan) ''capacityColumn'' \<notin> JStr ` set CAPACITY_COLUMNS \<longrightarrow>
      getCapacityColumn plan = None \<and>
      buildCandidateSql rt plan =
        buildCandidateSql rt
          (plan\<lparr>options := map_option (\<lambda>m. m(''capacityColumn'' := None)) (options plan)\<rparr>)) \<and>
   (opt_prop (options plan) ''geoColumn'' \<notin> JStr ` set GEO_COLUMNS \<longrightarrow>
      getGeoColumn plan = ''location'' \<and>
      buildCandidateSql rt plan =
        buildCandidateSql rt
          (plan\<lparr>options := map_option (\<lambda>m. m(''geoColumn'' := None)) (options plan)\<rparr>)) \<and>
   (opt_prop (options plan) ''capacityColumn'' = JStr ''DROP TABLE properties'' \<longrightarrow>
      \<not> sublist ''DROP TABLE properties'' (sql_text (buildCandidateSql rt plan))) \<and>
   (\<forall>c. getCapacityColumn plan = Some c \<longrightarrow> c \<in> set CAPACITY_COLUMNS) \<and>
   getGeoColumn plan \<in> set GEO_COLUMNS"
proof -
  have cap: "getCapacityColumn plan = None \<and>
      buildCandidateSql rt plan =
        buildCandidateSql rt
          (plan\<lparr>options := map_option (\<lambda>m. m(''capacityColumn'' := None)) (options plan)\<rparr>)"
    if "opt_prop (options plan) ''capacityColumn'' \<notin> JStr ` set CAPACITY_COLUMNS"
    using that capacity_ignored [OF that] by (simp add: getCapacityColumn_eq)
  have geo: "getGeoColumn plan = ''location'' \<and>
      buildCandidateSql rt plan =
        buildCandidateSql rt
          (plan\<lparr>options := map_option (\<lambda>m. m(''geoColumn'' := None)) (options plan)\<rparr>)"
    if "opt_prop (options plan) ''geoColumn'' \<notin> JStr ` set GEO_COLUMNS"
    using that geo_ignored [OF that] by (simp add: getGeoColumn_eq)
  have drop: "\<not> sublist ''DROP TABLE properties'' (sql_text (buildCandidateSql rt plan))"
    if "opt_prop (options plan) ''capacityColumn'' = JStr ''DROP TABLE properties''"
  proof -
    from that have "getCapacityColumn plan = None"
      by (simp add: getCapacityColumn_def CAPACITY_COLUMNS_def)
    from no_capacity_texts [OF this, where rt = rt] drop_table_absent show ?thesis
      by auto
  qed
  from cap geo drop getCapacityColumn_allowed [of plan] getGeoColumn_allowed [of plan]
  show ?thesis
    by blast
qed

theorem column_allow_list_witness:
  "getCapacityColumn (sample_plan\<lparr>options := Some [''capacityColumn'' \<mapsto> JStr ''DROP TABLE properties'']\<rparr>) = None \<and>
   buildCandidateSql sample_runtime (sample_plan\<lparr>options := Some [''capacityColumn'' \<mapsto> JStr ''DROP TABLE properties'']\<rparr>)
     = buildCandidateSql sample_runtime (sample_plan\<lparr>options := Some Map.empty\<rparr>) \<and>
   \<not> sublist ''DROP TABLE properties''
     (sql_text (buildCandidateSql sample_runtime
        (sample_plan\<lparr>options := Some [''capacityColumn'' \<mapsto> JStr ''DROP TABLE properties'']\<rparr>))) \<and>
   getGeoColumn (sample_plan\<lparr>options := Some [''geoColumn'' \<mapsto> JStr ''geom; --'']\<rparr>) = ''location'' \<and>
   getCapacityColumn (sample_plan\<lparr>options := Some [''capacityColumn'' \<mapsto> JStr ''capacity'']\<rparr>) = Some ''capacity''"
proof -
  let ?bad = "sample_plan\<lparr>options := Some [''capacityColumn'' \<mapsto> JStr ''DROP TABLE properties'']\<rparr>"
  let ?geo = "sample_plan\<lparr>options := Some [''geoColumn'' \<mapsto> JStr ''geom; --'']\<rparr>"
  have v: "opt_prop (options ?bad) ''capacityColumn'' = JStr ''DROP TABLE properties''"
    by (simp add: opt_prop_def get_prop_def)
  then have "opt_prop (options ?bad) ''capacityColumn'' \<notin> JStr ` set CAPACITY_COLUMNS"
    by (simp add: CAPACITY_COLUMNS_def)
  with v column_allow_list [where rt = sample_runtime and plan = ?bad]
  have "getCapacityColumn ?bad = None"
    and "buildCandidateSql sample_runtime ?bad =
        buildCandidateSql sample_runtime (?bad\<lparr>options := map_option (\<lambda>m. m(''capacityColumn'' := None)) (options ?bad)\<rparr>)"
    and "\<not> sublist ''DROP TABLE properties'' (sql_text (buildCandidateSql sample_runtime ?bad))"
    by blast+
  moreover have "opt_prop (options ?geo) ''geoColumn'' \<notin> JStr ` set GEO_COLUMNS"
    by (simp add: opt_prop_def get_prop_def GEO_COLUMNS_def)
  with column_allow_list [where rt = sample_runtime and plan = ?geo] have "getGeoColumn ?geo = ''location''"
    by blast
  moreover have "getCapacityColumn (sample_plan\<lparr>options := Some [''capacityColumn'' \<mapsto> JStr ''capacity'']\<rparr>)
      = Some ''capacity''"
    by (simp add: getCapacityColumn_def opt_prop_def get_prop_def CAPACITY_COLUMNS_def)
  ultimately show ?thesis
    by simp
qed

text \<open>
  The claim as written says that a supplied string outside the allow-list never occurs
  in the text. The text is fixed, so a supplied string that is part of it occurs there
  all the same: \<open>properties\<close> is not a capacity column and is the table name.
\<close>

theorem supplied_string_counterexample:
  "opt_prop (options (sample_plan\<lparr>options := Some [''capacityColumn'' \<mapsto> JStr ''properties'']\<rparr>))
      ''capacityColumn'' = JStr ''properties'' \<and>
   ''properties'' \<notin> set CAPACITY_COLUMNS \<and>
   sublist ''properties''
     (sql_text (buildCandidateSql sample_runtime
        (sample_plan\<lparr>options := Some [''capacityColumn'' \<mapsto> JStr ''properties'']\<rparr>)))"
  by (simp add: opt_prop_def get_prop_def CAPACITY_COLUMNS_def properties_in_text)

subsection \<open>The geospatial filter\<close>

















subsection \<open>The plan and the caller's objects\<close>

lemma length_mutate: "length (mutate h m) = length h"
  by (cases m) simp_all

lemma mutate_append:
  "target m < length h \<Longrightarrow> mutate (h @ news) m = mutate h m @ news"
  by (cases m) (simp_all add: nth_append list_update_append1)

lemma length_mutate_all: "length (mutate_all h ms) = length h"
  unfolding mutate_all_def
  by (induction ms arbitrary: h) (simp_all add: length_mutate)

lemma mutate_all_append:
  "\<forall>m\<in>set ms. target m < length h \<Longrightarrow> mutate_all (h @ news) ms = mutate_all h ms @ news"
  unfolding mutate_all_def
proof (induction ms arbitrary: h)
  case Nil
  then show ?case by simp
next
  case (Cons m ms)
  then have "\<forall>m'\<in>set ms. target m' < length (mutate h m)"
    by (simp add: length_mutate)
  from Cons.IH [OF this] Cons.prems show ?case
    by (simp add: mutate_append)
qed

lemma heap_get_fresh:
  assumes "\<forall>m\<in>set ms. target m < length h" "length h \<le> b"
  shows "heap_get (mutate_all (h @ news) ms) b k = heap_get (h @ news) b k"
  using assms
  by (simp add: mutate_all_append heap_get_def nth_append length_mutate_all)

lemma heap_shape:
  assumes "buildSearchPlan_heap rt h a = Inr (p, h')"
  shows "\<exists>plan. buildSearchPlan rt (read_input h a) = Inr plan \<and>
    (options plan = None \<longrightarrow>
      p = length h + 3 \<and>
      h' = h @ [date_object (checkInDate plan), date_object (checkOutDate plan), geo_object (geo plan),
                plan_object plan a (length h) (length h + 1) (length h + 2) JUndefined]) \<and>
    (\<forall>m. options plan = Some m \<longrightarrow>
      p = length h + 4 \<and>
      h' = h @ [date_object (checkInDate plan), date_object (checkOutDate plan), geo_object (geo plan),
                \<lparr>props = m, frozen = False\<rparr>,
                plan_object plan a (length h) (length h + 1) (length h + 2) (JObj (length h + 3))])"
proof -
  from assms obtain plan where built: "buildSearchPlan rt (read_input h a) = Inr plan"
    by (auto simp: buildSearchPlan_heap_def split: sum.splits)
  have none: "p = length h + 3 \<and>
      h' = h @ [date_object (checkInDate plan), date_object (checkOutDate plan), geo_object (geo plan),
                plan_object plan a (length h) (length h + 1) (length h + 2) JUndefined]"
    if "options plan = None"
    using assms built that
    by (auto simp: buildSearchPlan_heap_def alloc_options_def alloc_def Let_def)
  have some: "p = length h + 4 \<and>
      h' = h @ [date_object (checkInDate plan), date_object (checkOutDate plan), geo_object (geo plan),
                \<lparr>props = m, frozen = False\<rparr>,
                plan_object plan a (length h) (length h + 1) (length h + 2) (JObj (length h + 3))]"
    if "options plan = Some m" for m
    using assms built that
    by (auto simp: buildSearchPlan_heap_def alloc_options_def alloc_def Let_def eval_nat_numeral)
  show ?thesis
  proof (intro exI [of _ plan] conjI impI allI)
    show "buildSearchPlan rt (read_input h a) = Inr plan"
      by (rule built)
  qed (use none some in simp_all)
qed

lemma built_options: "buildSearchPlan rt inp = Inr plan \<Longrightarrow> options plan = filters inp"
  by (auto simp: buildSearchPlan_def Let_def split: sum.splits if_splits)


lemma plan_refs_fresh:
  assumes "get_prop (props (plan_object plan a n (n + 1) (n + 2) optv)) k = JObj b"
    and "k \<noteq> ''input''" and "optv = JUndefined \<or> optv = JObj (n + 3)"
  shows "n \<le> b"
  using assms by (auto simp: plan_object_def get_prop_def split: if_splits)

lemma read_path_one: "read_path h (JObj p) [k] = heap_get h p k"
  by simp

lemma read_path_two:
  "read_path h (JObj p) [k1, k2] =
     (case heap_get h p k1 of JObj b \<Rightarrow> heap_get h b k2 | _ \<Rightarrow> JUndefined)"
  by (simp split: jsval.splits)

lemma isolated_paths:
  assumes ms: "\<forall>m\<in>set ms. target m < length h"
    and p: "p = length h + length news" 
    and refs: "\<forall>k b. k \<noteq> ''input'' \<longrightarrow> get_prop (props ob) k = JObj b \<longrightarrow> length h \<le> b"
  shows "read_path (mutate_all (h @ news @ [ob]) ms) (JObj p) [k] = read_path (h @ news @ [ob]) (JObj p) [k]"
    and "k1 \<noteq> ''input'' \<Longrightarrow>
      read_path (mutate_all (h @ news @ [ob]) ms) (JObj p) [k1, k2]
        = read_path (h @ news @ [ob]) (JObj p) [k1, k2]"
proof -
  have own: "heap_get (mutate_all (h @ news @ [ob]) ms) p k' = heap_get (h @ news @ [ob]) p k'" for k'
    using heap_get_fresh [OF ms, of p "news @ [ob]" k'] p by simp
  then show "read_path (mutate_all (h @ news @ [ob]) ms) (JObj p) [k] = read_path (h @ news @ [ob]) (JObj p) [k]"
    by (simp only: read_path_one)
  have at_p: "heap_get (h @ news @ [ob]) p k' = get_prop (props ob) k'" for k'
    using p by (simp add: heap_get_def nth_append)
  show "read_path (mutate_all (h @ news @ [ob]) ms) (JObj p) [k1, k2]
        = read_path (h @ news @ [ob]) (JObj p) [k1, k2]" if k1: "k1 \<noteq> ''input''"
  proof (cases "heap_get (h @ news @ [ob]) p k1")
    case (JObj b)
    then have "length h \<le> b"
      using refs k1 by (simp add: at_p)
    from heap_get_fresh [OF ms this, of "news @ [ob]" k2] JObj show ?thesis
      by (simp add: read_path_two own)
  qed (simp_all add: read_path_two own)
qed

text \<open>
  What the builder does isolate. After the plan of an accepted request has been built,
  let the caller assign and delete properties of any objects that existed before the
  call (its request object, the filter map, anything they refer to). The plan object
  and \<open>plan.geo\<close> are frozen, \<open>plan.options\<close> is a fresh object holding the entries of
  \<open>input.filters\<close> (or \<open>undefined\<close> when there are no filters), and every field of the
  plan, of \<open>plan.geo\<close>, of \<open>plan.options\<close> and of the two dates reads as before.
\<close>

lemma plan_fields_isolated:
  "buildSearchPlan_heap rt h a = Inr (p, h') \<and> (\<forall>m\<in>set ms. target m < length h) \<longrightarrow>
     p < length h' \<and> frozen (h' ! p) \<and>
     heap_get h' p ''geo'' = JObj (length h + 2) \<and> frozen (h' ! (length h + 2)) \<and>
     (case filters (read_input h a) of
        None \<Rightarrow> heap_get h' p ''options'' = JUndefined
      | Some m \<Rightarrow> heap_get h' p ''options'' = JObj (length h + 3) \<and>
                  props (h' ! (length h + 3)) = m) \<and>
     (\<forall>k. read_path (mutate_all h' ms) (JObj p) [k] = read_path h' (JObj p) [k]) \<and>
     (\<forall>k1 k2. k1 \<noteq> ''input'' \<longrightarrow>
        read_path (mutate_all h' ms) (JObj p) [k1, k2] = read_path h' (JObj p) [k1, k2])"
proof (intro impI, elim conjE)
  assume run: "buildSearchPlan_heap rt h a = Inr (p, h')"
    and ms: "\<forall>m\<in>set ms. target m < length h"
  let ?n = "length h"
  from heap_shape [OF run] obtain plan where built: "buildSearchPlan rt (read_input h a) = Inr plan"
    and none: "options plan = None \<longrightarrow>
      p = ?n + 3 \<and>
      h' = h @ [date_object (checkInDate plan), date_object (checkOutDate plan), geo_object (geo plan),
                plan_object plan a ?n (?n + 1) (?n + 2) JUndefined]"
    and some: "\<forall>m. options plan = Some m \<longrightarrow>
      p = ?n + 4 \<and>
      h' = h @ [date_object (checkInDate plan), date_object (checkOutDate plan), geo_object (geo plan),
                \<lparr>props = m, frozen = False\<rparr>,
                plan_object plan a ?n (?n + 1) (?n + 2) (JObj (?n + 3))]"
    by (elim exE conjE)
  note opts = built_options [OF built]
  show "p < length h' \<and> frozen (h' ! p) \<and>
     heap_get h' p ''geo'' = JObj (?n + 2) \<and> frozen (h' ! (?n + 2)) \<and>
     (case filters (read_input h a) of
        None \<Rightarrow> heap_get h' p ''options'' = JUndefined
      | Some m \<Rightarrow> heap_get h' p ''options'' = JObj (?n + 3) \<and>
                  props (h' ! (?n + 3)) = m) \<and>
     (\<forall>k. read_path (mutate_all h' ms) (JObj p) [k] = read_path h' (JObj p) [k]) \<and>
     (\<forall>k1 k2. k1 \<noteq> ''input'' \<longrightarrow>
        read_path (mutate_all h' ms) (JObj p) [k1, k2] = read_path h' (JObj p) [k1, k2])"
  proof (cases "options plan")
    case None
    let ?news = "[date_object (checkInDate plan), date_object (checkOutDate plan), geo_object (geo plan)]"
    let ?ob = "plan_object plan a ?n (?n + 1) (?n + 2) JUndefined"
    from none None have p: "p = ?n + length ?news" and h': "h' = h @ ?news @ [?ob]"
      by simp_all
    have refs: "\<forall>k b. k \<noteq> ''input'' \<longrightarrow> get_prop (props ?ob) k = JObj b \<longrightarrow> ?n \<le> b"
      using plan_refs_fresh [of plan a ?n] by simp
    note paths = isolated_paths [OF ms p refs, folded h']
    have static: "p < length h' \<and> frozen (h' ! p) \<and>
        heap_get h' p ''geo'' = JObj (?n + 2) \<and> frozen (h' ! (?n + 2)) \<and>
        heap_get h' p ''input'' = JObj a \<and> heap_get h' p ''options'' = JUndefined"
      by (simp add: p h' heap_get_def nth_append get_prop_def plan_object_def geo_object_def)
    from static paths None opts show ?thesis
      by simp
  next
    case (Some m)
    let ?news = "[date_object (checkInDate plan), date_object (checkOutDate plan), geo_object (geo plan),
        \<lparr>props = m, frozen = False\<rparr>]"
    let ?ob = "plan_object plan a ?n (?n + 1) (?n + 2) (JObj (?n + 3))"
    from some Some have p: "p = ?n + length ?news" and h': "h' = h @ ?news @ [?ob]"
      by simp_all
    have refs: "\<forall>k b. k \<noteq> ''input'' \<longrightarrow> get_prop (props ?ob) k = JObj b \<longrightarrow> ?n \<le> b"
      using plan_refs_fresh [of plan a ?n] by simp
    note paths = isolated_paths [OF ms p refs, folded h']
    have static: "p < length h' \<and> frozen (h' ! p) \<and>
        heap_get h' p ''geo'' = JObj (?n + 2) \<and> frozen (h' ! (?n + 2)) \<and>
        heap_get h' p ''input'' = JObj a \<and> heap_get h' p ''options'' = JObj (?n + 3) \<and>
        props (h' ! (?n + 3)) = m"
      by (simp add: p h' heap_get_def nth_append get_prop_def plan_object_def geo_object_def)
    from static paths Some opts show ?thesis
      by simp
  qed
qed

lemma sample_read_input: "read_input sample_heap 0 = sample_input"
  by (simp add: read_input_def heap_get_def get_prop_def sample_heap_def sample_input_def)

lemma sample_plan_fields:
  "options sample_plan = Some [''radiusKm'' \<mapsto> JNum (Fin 100)]"
  "checkInDate sample_plan = 1768176000000"
  "checkOutDate sample_plan = 1768348800000"
  "geo sample_plan = Some \<lparr>lat = Fin 52.3676, lon = Fin 4.9041\<rparr>"
  by (simp_all add: sample_plan_def)

lemma sample_heap_built:
  "buildSearchPlan_heap sample_runtime sample_heap 0 = Inr (6, sample_plan_heap)"
proof -
  have n: "length sample_heap = 2"
    by (simp add: sample_heap_def)
  show ?thesis
    by (simp add: buildSearchPlan_heap_def sample_read_input sample_plan_built alloc_options_def
        alloc_def Let_def sample_plan_heap_def sample_plan_fields n)
qed

lemma sample_plan_reads:
  "read_path sample_plan_heap (JObj 6) [''radius''] = JNum (Fin 100)"
  "read_path sample_plan_heap (JObj 6) [''options'', ''radiusKm''] = JNum (Fin 100)"
  "read_path sample_plan_heap (JObj 6) [''geo'', ''lat''] = JNum (Fin 52.3676)"
  "read_path sample_plan_heap (JObj 6) [''input'', ''adults''] = JNum (Fin 2)"
  by (simp_all add: sample_plan_heap_def sample_heap_def heap_get_def get_prop_def
      plan_object_def geo_object_def sample_plan_def nth_append eval_nat_numeral)

lemma plan_fields_isolated_sample:
  "buildSearchPlan_heap sample_runtime sample_heap 0 = Inr (6, sample_plan_heap) \<and>
   frozen (sample_plan_heap ! 6) \<and>
   read_path
     (mutate_all sample_plan_heap
        [SetProp 1 ''radiusKm'' (JNum (Fin 1)), DeleteProp 1 ''radiusKm'', SetProp 0 ''filters'' JNull])
     (JObj 6) [''options'', ''radiusKm''] = JNum (Fin 100) \<and>
   read_path
     (mutate_all sample_plan_heap
        [SetProp 1 ''radiusKm'' (JNum (Fin 1)), DeleteProp 1 ''radiusKm'', SetProp 0 ''filters'' JNull])
     (JObj 6) [''radius''] = JNum (Fin 100) \<and>
   read_path
     (mutate_all sample_plan_heap
        [SetProp 1 ''radiusKm'' (JNum (Fin 1)), DeleteProp 1 ''radiusKm'', SetProp 0 ''filters'' JNull])
     (JObj 6) [''geo'', ''lat''] = JNum (Fin 52.3676)"
proof -
  let ?ms = "[SetProp 1 ''radiusKm'' (JNum (Fin 1)), DeleteProp 1 ''radiusKm'', SetProp 0 ''filters'' JNull]"
  have old: "\<forall>m\<in>set ?ms. target m < length sample_heap"
    by (simp add: sample_heap_def)
  note inst = plan_fields_isolated [where rt = sample_runtime and h = sample_heap and a = 0 and p = 6
      and h' = sample_plan_heap and ms = ?ms]
  from inst sample_heap_built old
  have "frozen (sample_plan_heap ! 6)"
    and one: "\<forall>k. read_path (mutate_all sample_plan_heap ?ms) (JObj 6) [k]
        = read_path sample_plan_heap (JObj 6) [k]"
    and two: "\<forall>k1 k2. k1 \<noteq> ''input'' \<longrightarrow>
        read_path (mutate_all sample_plan_heap ?ms) (JObj 6) [k1, k2]
          = read_path sample_plan_heap (JObj 6) [k1, k2]"
    by blast+
  moreover from two have
    "read_path (mutate_all sample_plan_heap ?ms) (JObj 6) [''options'', ''radiusKm'']
       = read_path sample_plan_heap (JObj 6) [''options'', ''radiusKm'']"
    "read_path (mutate_all sample_plan_heap ?ms) (JObj 6) [''geo'', ''lat'']
       = read_path sample_plan_heap (JObj 6) [''geo'', ''lat'']"
    by simp_all
  moreover from one have
    "read_path (mutate_all sample_plan_heap ?ms) (JObj 6) [''radius'']
       = read_path sample_plan_heap (JObj 6) [''radius'']"
    by blast
  ultimately show ?thesis
    using sample_heap_built by (simp only: sample_plan_reads)
qed

text \<open>
  Claim C9. The claim is that no mutation of the caller's request object after
  \<open>buildSearchPlan\<close> returns changes anything read through the plan, which the builder's
  own comments call immutable. The builder copies \<open>filters\<close> and freezes \<open>geo\<close> and the
  plan, but it stores the request object itself under \<open>input\<close>, neither copied nor
  frozen. For the sample request \<open>plan.input.adults\<close> reads 2 when the plan is built,
  and 7 after the caller sets \<open>adults\<close> to 7 on its request object.
\<close>

theorem plan_input_shared:
  "buildSearchPlan_heap sample_runtime sample_heap 0 = Inr (6, sample_plan_heap) \<and>
   read_path sample_plan_heap (JObj 6) [''input'', ''adults''] = JNum (Fin 2) \<and>
   read_path (mutate_all sample_plan_heap [SetProp 0 ''adults'' (JNum (Fin 7))]) (JObj 6)
     [''input'', ''adults''] = JNum (Fin 7)"
  by (simp add: sample_heap_built sample_plan_reads)
     (simp add: mutate_all_def sample_plan_heap_def sample_heap_def heap_get_def get_prop_def
        plan_object_def nth_append eval_nat_numeral)


end
